theory Spec2Isabelle
  imports Complex_Main
begin

section \<open>Floating-point values\<close>

text \<open>
  A floating-point value: a finite number, the two infinities, or not-a-number. Finite
  values carry the rational they denote. Rounding, overflow and the sign of zero are not
  represented; the special cases of division, comparison and equality are those of
  IEEE 754, which the confusion helper of the metric module relies on.
\<close>

datatype flt = Finite rat | PInf | NInf | NaN

fun flt_div :: "flt \<Rightarrow> flt \<Rightarrow> flt" where
  "flt_div NaN y = NaN"
| "flt_div x NaN = NaN"
| "flt_div (Finite a) (Finite b) =
     (if b = 0 then (if a = 0 then NaN else if 0 < a then PInf else NInf)
      else Finite (a / b))"
| "flt_div (Finite a) PInf = Finite 0"
| "flt_div (Finite a) NInf = Finite 0"
| "flt_div PInf (Finite b) = (if 0 \<le> b then PInf else NInf)"
| "flt_div NInf (Finite b) = (if 0 \<le> b then NInf else PInf)"
| "flt_div PInf PInf = NaN"
| "flt_div PInf NInf = NaN"
| "flt_div NInf PInf = NaN"
| "flt_div NInf NInf = NaN"

fun flt_add :: "flt \<Rightarrow> flt \<Rightarrow> flt" where
  "flt_add NaN y = NaN"
| "flt_add x NaN = NaN"
| "flt_add (Finite a) (Finite b) = Finite (a + b)"
| "flt_add (Finite a) PInf = PInf"
| "flt_add (Finite a) NInf = NInf"
| "flt_add PInf (Finite b) = PInf"
| "flt_add NInf (Finite b) = NInf"
| "flt_add PInf PInf = PInf"
| "flt_add NInf NInf = NInf"
| "flt_add PInf NInf = NaN"
| "flt_add NInf PInf = NaN"

fun flt_mul :: "flt \<Rightarrow> flt \<Rightarrow> flt" where
  "flt_mul NaN y = NaN"
| "flt_mul x NaN = NaN"
| "flt_mul (Finite a) (Finite b) = Finite (a * b)"
| "flt_mul (Finite a) PInf = (if a = 0 then NaN else if 0 < a then PInf else NInf)"
| "flt_mul (Finite a) NInf = (if a = 0 then NaN else if 0 < a then NInf else PInf)"
| "flt_mul PInf (Finite b) = (if b = 0 then NaN else if 0 < b then PInf else NInf)"
| "flt_mul NInf (Finite b) = (if b = 0 then NaN else if 0 < b then NInf else PInf)"
| "flt_mul PInf PInf = PInf"
| "flt_mul NInf NInf = PInf"
| "flt_mul PInf NInf = NInf"
| "flt_mul NInf PInf = NInf"

text \<open>\<open>flt_gt x y\<close> is the comparison \<^verbatim>\<open>x > y\<close>: false whenever an operand is NaN.\<close>

fun flt_gt :: "flt \<Rightarrow> flt \<Rightarrow> bool" where
  "flt_gt NaN y = False"
| "flt_gt x NaN = False"
| "flt_gt (Finite a) (Finite b) = (b < a)"
| "flt_gt PInf PInf = False"
| "flt_gt PInf y = True"
| "flt_gt x NInf = (x \<noteq> NInf)"
| "flt_gt x PInf = False"
| "flt_gt NInf y = False"


text \<open>\<open>flt_eq x y\<close> is \<^verbatim>\<open>x == y\<close>: NaN equals nothing, itself included.\<close>

definition flt_eq :: "flt \<Rightarrow> flt \<Rightarrow> bool" where
  "flt_eq x y = (x \<noteq> NaN \<and> y \<noteq> NaN \<and> x = y)"

definition flt_isnan :: "flt \<Rightarrow> bool" where
  "flt_isnan x = (x = NaN)"

text \<open>\<^verbatim>\<open>.float()\<close> on a boolean: 1.0 for true, 0.0 for false.\<close>

definition bool_to_float :: "bool \<Rightarrow> flt" where
  "bool_to_float b = (if b then Finite 1 else Finite 0)"

section \<open>Tensors\<close>

text \<open>
  A tensor is its shape and its elements in row-major order, as the tensor library stores
  it. A well-formed tensor has as many elements as its shape says.
\<close>

record 'a tensor =
  shape :: "nat list"
  elems :: "'a list"



section \<open>Python values and exceptions\<close>

text \<open>
  The values a configuration or a checkpoint holds. A dictionary is an object of the
  store (see the managers below) and a value refers to it by its address, \<open>PRef\<close>: two
  references to one address are one dictionary, as in Python.
\<close>

datatype pyval =
    PNone
  | PBool bool
  | PInt int
  | PFloat flt
  | PStr string
  | PList "pyval list"
  | PTensor "flt tensor"
  | PRef nat

text \<open>
  Exceptions are values. \<open>Exception\<close> is the source's \<^verbatim>\<open>raise Exception(msg)\<close>: it
  carries the text of the message as the source writes it, with the values the f-string
  interpolates beside it. \<open>ShapeError\<close> stands for an elementwise operation on tensors of
  different shapes (the tensor library raises or broadcasts there; the repository never
  calls it that way and broadcasting is not represented). \<open>BadReference\<close> is a reference
  to an address the store does not hold, which no Python program can build.
\<close>

datatype py_error =
    ZeroDivisionError
  | IndexError
  | KeyError string
  | ValueError
  | TypeError
  | AttributeError string
  | ShapeError
  | BadReference
  | FileNotFoundError string
  | Exception string "pyval list"

section \<open>Operations on tensors\<close>

text \<open>An elementwise operation of two tensors of one shape.\<close>

definition tensor_zip :: "('a \<Rightarrow> 'b \<Rightarrow> 'c) \<Rightarrow> 'a tensor \<Rightarrow> 'b tensor \<Rightarrow> py_error + 'c tensor" where
  "tensor_zip f x y =
     (if shape x = shape y \<and> length (elems x) = length (elems y)
      then Inr \<lparr>shape = shape x, elems = map2 f (elems x) (elems y)\<rparr>
      else Inl ShapeError)"

definition tensor_map :: "('a \<Rightarrow> 'b) \<Rightarrow> 'a tensor \<Rightarrow> 'b tensor" where
  "tensor_map f x = \<lparr>shape = shape x, elems = map f (elems x)\<rparr>"

text \<open>\<^verbatim>\<open>x > threshold\<close>, \<^verbatim>\<open>x == v\<close>, \<^verbatim>\<open>torch.isnan(x)\<close> and \<^verbatim>\<open>.float()\<close>.\<close>

definition tensor_gt :: "flt tensor \<Rightarrow> flt \<Rightarrow> bool tensor" where
  "tensor_gt x threshold = tensor_map (\<lambda>v. flt_gt v threshold) x"

definition tensor_eq_scalar :: "flt tensor \<Rightarrow> flt \<Rightarrow> bool tensor" where
  "tensor_eq_scalar x v = tensor_map (\<lambda>u. flt_eq u v) x"

definition tensor_isnan :: "flt tensor \<Rightarrow> bool tensor" where
  "tensor_isnan x = tensor_map flt_isnan x"

definition tensor_float :: "bool tensor \<Rightarrow> flt tensor" where
  "tensor_float x = tensor_map bool_to_float x"

text \<open>\<^verbatim>\<open>torch.sum(b).item()\<close> on a boolean tensor: the number of true elements.\<close>

definition count_true :: "bool tensor \<Rightarrow> nat" where
  "count_true b = length (filter (\<lambda>v. v) (elems b))"

text \<open>\<^verbatim>\<open>x.sum()\<close> on a float tensor.\<close>

definition tensor_sum :: "flt tensor \<Rightarrow> flt" where
  "tensor_sum x = foldl flt_add (Finite 0) (elems x)"

text \<open>\<^verbatim>\<open>x.view(-1)\<close>: the same elements, in one dimension.\<close>

definition view_flat :: "'a tensor \<Rightarrow> 'a tensor" where
  "view_flat x = \<lparr>shape = [length (elems x)], elems = elems x\<rparr>"

section \<open>The metric module\<close>

subsection \<open>Confusion counts\<close>

text \<open>
  \<^verbatim>\<open>_confusion(prediction, truth)\<close>: the elementwise quotient, then four counts
  (true positives, false positives, true negatives, false negatives).
\<close>

definition confusion :: "flt tensor \<Rightarrow> flt tensor \<Rightarrow> py_error + (nat \<times> nat \<times> nat \<times> nat)" where
  "confusion prediction truth =
     (case tensor_zip flt_div prediction truth of
        Inl e \<Rightarrow> Inl e
      | Inr confusion_vector \<Rightarrow>
          (let true_positives = count_true (tensor_eq_scalar confusion_vector (Finite 1));
               false_positives = count_true (tensor_eq_scalar confusion_vector PInf);
               true_negatives = count_true (tensor_isnan confusion_vector);
               false_negatives = count_true (tensor_eq_scalar confusion_vector (Finite 0))
           in Inr (true_positives, false_positives, true_negatives, false_negatives)))"



subsection \<open>Indexing\<close>

text \<open>A Python index into a dimension of size \<open>n\<close>: negative indices count from the end.\<close>

definition py_index :: "nat \<Rightarrow> int \<Rightarrow> py_error + nat" where
  "py_index n i =
     (let j = (if i < 0 then int n + i else i)
      in if 0 \<le> j \<and> j < int n then Inr (nat j) else Inl IndexError)"

text \<open>The \<open>k\<close>-th block of \<open>m\<close> consecutive elements.\<close>

definition block :: "'a list \<Rightarrow> nat \<Rightarrow> nat \<Rightarrow> 'a list" where
  "block xs m k = take m (drop (k * m) xs)"

text \<open>
  \<^verbatim>\<open>x[:, class_]\<close>: the channel of every item of the batch (the source's \<^verbatim>\<open>class_\<close> is
  \<open>cls\<close> here, as a name cannot end in an underscore).
\<close>

definition select_channel :: "'a tensor \<Rightarrow> int \<Rightarrow> py_error + 'a tensor" where
  "select_channel x cls =
     (case shape x of
        B # C # rest \<Rightarrow>
          (case py_index C cls of
             Inl e \<Rightarrow> Inl e
           | Inr c \<Rightarrow>
               Inr \<lparr>shape = B # rest,
                    elems = concat (map (\<lambda>b. block (elems x) (prod_list rest) (b * C + c)) [0..<B])\<rparr>)
      | _ \<Rightarrow> Inl IndexError)"

text \<open>\<^verbatim>\<open>x[b, c, :, :]\<close>: one channel of one item.\<close>

definition select_item :: "'a tensor \<Rightarrow> nat \<Rightarrow> int \<Rightarrow> py_error + 'a tensor" where
  "select_item x b cls =
     (case shape x of
        B # C # H # W # rest \<Rightarrow>
          (if b < B then
             (case py_index C cls of
                Inl e \<Rightarrow> Inl e
              | Inr c \<Rightarrow>
                  Inr \<lparr>shape = H # W # rest,
                       elems = block (elems x) (prod_list (H # W # rest)) (b * C + c)\<rparr>)
           else Inl IndexError)
      | _ \<Rightarrow> Inl IndexError)"

subsection \<open>Dice\<close>

definition eps_default :: flt where
  "eps_default = Finite (1 / 10 ^ 9)"

definition dice_single_channel :: "flt tensor \<Rightarrow> flt tensor \<Rightarrow> flt \<Rightarrow> flt \<Rightarrow> py_error + flt" where
  "dice_single_channel probability truth threshold eps =
     (let p = tensor_float (tensor_gt (view_flat probability) threshold);
          t = tensor_float (tensor_gt (view_flat truth) (Finite (5 / 10)))
      in case tensor_zip flt_mul p t of
           Inl e \<Rightarrow> Inl e
         | Inr pt \<Rightarrow>
             Inr (flt_div (flt_add (flt_mul (Finite 2) (tensor_sum pt)) eps)
                          (flt_add (flt_add (tensor_sum p) (tensor_sum t)) eps)))"

text \<open>
  The loop of \<^verbatim>\<open>dice_c\<close> over \<^verbatim>\<open>range(B)\<close>, with the running total (\<open>total_sum\<close>
  here, since \<open>total\<close> is a constant of the logic). The prediction is indexed before
  the target, as the arguments of the call are evaluated.
\<close>

fun dice_loop :: "int \<Rightarrow> flt tensor \<Rightarrow> flt tensor \<Rightarrow> flt \<Rightarrow> nat list \<Rightarrow> flt \<Rightarrow> py_error + flt" where
  "dice_loop c output targets threshold [] total_sum = Inr total_sum"
| "dice_loop c output targets threshold (b # bs) total_sum =
     (case select_item output b c of
        Inl e \<Rightarrow> Inl e
      | Inr probability \<Rightarrow>
          (case select_item targets b c of
             Inl e \<Rightarrow> Inl e
           | Inr truth \<Rightarrow>
               (case dice_single_channel probability truth threshold eps_default of
                  Inl e \<Rightarrow> Inl e
                | Inr dice \<Rightarrow> dice_loop c output targets threshold bs (flt_add total_sum dice))))"

text \<open>
  \<^verbatim>\<open>dice_c\<close>. \<^verbatim>\<open>B, C, H, W = targets.size()\<close> needs exactly four dimensions. The total
  starts as the Python float \<^verbatim>\<open>0.0\<close> and becomes a tensor with the first item added:
  after an empty loop \<^verbatim>\<open>total / B\<close> is Python's division of a float by the integer zero,
  which raises; after a non-empty one it is a tensor divided by a positive integer.
\<close>

definition dice_c :: "int \<Rightarrow> flt tensor \<Rightarrow> flt tensor \<Rightarrow> flt \<Rightarrow> py_error + flt" where
  "dice_c c output targets threshold =
     (case shape targets of
        [B, C, H, W] \<Rightarrow>
          (case dice_loop c output targets threshold [0..<B] (Finite 0) of
             Inl e \<Rightarrow> Inl e
           | Inr total_sum \<Rightarrow>
               if B = 0 then Inl ZeroDivisionError
               else Inr (flt_div total_sum (Finite (of_nat B))))
      | _ \<Rightarrow> Inl ValueError)"

definition dice_0 :: "flt tensor \<Rightarrow> flt tensor \<Rightarrow> flt \<Rightarrow> py_error + flt" where
  "dice_0 output targets threshold = dice_c 0 output targets threshold"

definition dice_1 :: "flt tensor \<Rightarrow> flt tensor \<Rightarrow> flt \<Rightarrow> py_error + flt" where
  "dice_1 output targets threshold = dice_c 1 output targets threshold"

definition dice_2 :: "flt tensor \<Rightarrow> flt tensor \<Rightarrow> flt \<Rightarrow> py_error + flt" where
  "dice_2 output targets threshold = dice_c 2 output targets threshold"

definition dice_3 :: "flt tensor \<Rightarrow> flt tensor \<Rightarrow> flt \<Rightarrow> py_error + flt" where
  "dice_3 output targets threshold = dice_c 3 output targets threshold"

definition dice_mean :: "flt tensor \<Rightarrow> flt tensor \<Rightarrow> flt \<Rightarrow> py_error + flt" where
  "dice_mean output targets threshold =
     (case dice_0 output targets threshold of
        Inl e \<Rightarrow> Inl e
      | Inr d0 \<Rightarrow>
     (case dice_1 output targets threshold of
        Inl e \<Rightarrow> Inl e
      | Inr d1 \<Rightarrow>
     (case dice_2 output targets threshold of
        Inl e \<Rightarrow> Inl e
      | Inr d2 \<Rightarrow>
     (case dice_3 output targets threshold of
        Inl e \<Rightarrow> Inl e
      | Inr d3 \<Rightarrow>
          Inr (flt_div (flt_add (flt_add (flt_add d0 d1) d2) d3) (Finite 4))))))"

text \<open>
  The index sets the specification speaks of: the positions of a mask binarized at a
  threshold.
\<close>

definition mask_at :: "flt list \<Rightarrow> flt \<Rightarrow> nat set" where
  "mask_at xs threshold = {i. i < length xs \<and> flt_gt (xs ! i) threshold}"

subsection \<open>Precision and recall\<close>

text \<open>Python's \<^verbatim>\<open>a / b\<close> on two integers: a float, or ZeroDivisionError.\<close>

definition py_truediv :: "nat \<Rightarrow> nat \<Rightarrow> py_error + flt" where
  "py_truediv a b = (if b = 0 then Inl ZeroDivisionError else Inr (Finite (of_nat a / of_nat b)))"

definition precision :: "flt tensor \<Rightarrow> flt tensor \<Rightarrow> int \<Rightarrow> flt \<Rightarrow> py_error + flt" where
  "precision output targets cls threshold =
     (case select_channel output cls of
        Inl e \<Rightarrow> Inl e
      | Inr oc \<Rightarrow>
          (let preds = tensor_float (tensor_gt oc threshold)
           in case select_channel targets cls of
                Inl e \<Rightarrow> Inl e
              | Inr tc \<Rightarrow>
                  (case confusion preds tc of
                     Inl e \<Rightarrow> Inl e
                   | Inr (tp, fp, tn, fn) \<Rightarrow>
                       if tp = 0 \<and> fp = 0 then Inr (Finite 1)
                       else py_truediv tp (tp + fp))))"

definition recall :: "flt tensor \<Rightarrow> flt tensor \<Rightarrow> int \<Rightarrow> flt \<Rightarrow> py_error + flt" where
  "recall output targets cls threshold =
     (case select_channel output cls of
        Inl e \<Rightarrow> Inl e
      | Inr oc \<Rightarrow>
          (let preds = tensor_float (tensor_gt oc threshold)
           in case select_channel targets cls of
                Inl e \<Rightarrow> Inl e
              | Inr tc \<Rightarrow>
                  (case confusion preds tc of
                     Inl e \<Rightarrow> Inl e
                   | Inr (tp, fp, tn, fn) \<Rightarrow>
                       if tp = 0 \<and> fn = 0 then Inr (Finite 1)
                       else py_truediv tp (tp + fn))))"

definition precision_0 :: "flt tensor \<Rightarrow> flt tensor \<Rightarrow> flt \<Rightarrow> py_error + flt" where
  "precision_0 output targets threshold = precision output targets 0 threshold"

definition precision_1 :: "flt tensor \<Rightarrow> flt tensor \<Rightarrow> flt \<Rightarrow> py_error + flt" where
  "precision_1 output targets threshold = precision output targets 1 threshold"

definition precision_2 :: "flt tensor \<Rightarrow> flt tensor \<Rightarrow> flt \<Rightarrow> py_error + flt" where
  "precision_2 output targets threshold = precision output targets 2 threshold"

definition precision_3 :: "flt tensor \<Rightarrow> flt tensor \<Rightarrow> flt \<Rightarrow> py_error + flt" where
  "precision_3 output targets threshold = precision output targets 3 threshold"

definition recall_0 :: "flt tensor \<Rightarrow> flt tensor \<Rightarrow> flt \<Rightarrow> py_error + flt" where
  "recall_0 output targets threshold = recall output targets 0 threshold"

definition recall_1 :: "flt tensor \<Rightarrow> flt tensor \<Rightarrow> flt \<Rightarrow> py_error + flt" where
  "recall_1 output targets threshold = recall output targets 1 threshold"

definition recall_2 :: "flt tensor \<Rightarrow> flt tensor \<Rightarrow> flt \<Rightarrow> py_error + flt" where
  "recall_2 output targets threshold = recall output targets 2 threshold"

definition recall_3 :: "flt tensor \<Rightarrow> flt tensor \<Rightarrow> flt \<Rightarrow> py_error + flt" where
  "recall_3 output targets threshold = recall output targets 3 threshold"

subsection \<open>Threshold-bound variants\<close>

text \<open>
  Each is \<^verbatim>\<open>partial(f, threshold=t)\<close> called with the two tensors. A threshold literal is
  written by its decimal value.
\<close>

definition precision_0_20 :: "flt tensor \<Rightarrow> flt tensor \<Rightarrow> py_error + flt" where
  "precision_0_20 output targets = precision_0 output targets (Finite (20 / 100))"

definition precision_0_30 :: "flt tensor \<Rightarrow> flt tensor \<Rightarrow> py_error + flt" where
  "precision_0_30 output targets = precision_0 output targets (Finite (30 / 100))"

definition precision_0_40 :: "flt tensor \<Rightarrow> flt tensor \<Rightarrow> py_error + flt" where
  "precision_0_40 output targets = precision_0 output targets (Finite (40 / 100))"

definition precision_0_50 :: "flt tensor \<Rightarrow> flt tensor \<Rightarrow> py_error + flt" where
  "precision_0_50 output targets = precision_0 output targets (Finite (50 / 100))"

definition precision_0_60 :: "flt tensor \<Rightarrow> flt tensor \<Rightarrow> py_error + flt" where
  "precision_0_60 output targets = precision_0 output targets (Finite (60 / 100))"

definition precision_0_70 :: "flt tensor \<Rightarrow> flt tensor \<Rightarrow> py_error + flt" where
  "precision_0_70 output targets = precision_0 output targets (Finite (70 / 100))"

definition precision_0_80 :: "flt tensor \<Rightarrow> flt tensor \<Rightarrow> py_error + flt" where
  "precision_0_80 output targets = precision_0 output targets (Finite (80 / 100))"

definition precision_1_20 :: "flt tensor \<Rightarrow> flt tensor \<Rightarrow> py_error + flt" where
  "precision_1_20 output targets = precision_1 output targets (Finite (20 / 100))"

definition precision_1_30 :: "flt tensor \<Rightarrow> flt tensor \<Rightarrow> py_error + flt" where
  "precision_1_30 output targets = precision_1 output targets (Finite (30 / 100))"

definition precision_1_40 :: "flt tensor \<Rightarrow> flt tensor \<Rightarrow> py_error + flt" where
  "precision_1_40 output targets = precision_1 output targets (Finite (40 / 100))"

definition precision_1_50 :: "flt tensor \<Rightarrow> flt tensor \<Rightarrow> py_error + flt" where
  "precision_1_50 output targets = precision_1 output targets (Finite (50 / 100))"

definition precision_1_60 :: "flt tensor \<Rightarrow> flt tensor \<Rightarrow> py_error + flt" where
  "precision_1_60 output targets = precision_1 output targets (Finite (60 / 100))"

definition precision_1_70 :: "flt tensor \<Rightarrow> flt tensor \<Rightarrow> py_error + flt" where
  "precision_1_70 output targets = precision_1 output targets (Finite (70 / 100))"

definition precision_1_80 :: "flt tensor \<Rightarrow> flt tensor \<Rightarrow> py_error + flt" where
  "precision_1_80 output targets = precision_1 output targets (Finite (80 / 100))"

definition precision_2_20 :: "flt tensor \<Rightarrow> flt tensor \<Rightarrow> py_error + flt" where
  "precision_2_20 output targets = precision_2 output targets (Finite (20 / 100))"

definition precision_2_30 :: "flt tensor \<Rightarrow> flt tensor \<Rightarrow> py_error + flt" where
  "precision_2_30 output targets = precision_2 output targets (Finite (30 / 100))"

definition precision_2_40 :: "flt tensor \<Rightarrow> flt tensor \<Rightarrow> py_error + flt" where
  "precision_2_40 output targets = precision_2 output targets (Finite (40 / 100))"

definition precision_2_50 :: "flt tensor \<Rightarrow> flt tensor \<Rightarrow> py_error + flt" where
  "precision_2_50 output targets = precision_2 output targets (Finite (50 / 100))"

definition precision_2_60 :: "flt tensor \<Rightarrow> flt tensor \<Rightarrow> py_error + flt" where
  "precision_2_60 output targets = precision_2 output targets (Finite (60 / 100))"

definition precision_2_70 :: "flt tensor \<Rightarrow> flt tensor \<Rightarrow> py_error + flt" where
  "precision_2_70 output targets = precision_2 output targets (Finite (70 / 100))"

definition precision_2_80 :: "flt tensor \<Rightarrow> flt tensor \<Rightarrow> py_error + flt" where
  "precision_2_80 output targets = precision_2 output targets (Finite (80 / 100))"

definition precision_3_20 :: "flt tensor \<Rightarrow> flt tensor \<Rightarrow> py_error + flt" where
  "precision_3_20 output targets = precision_3 output targets (Finite (20 / 100))"

definition precision_3_30 :: "flt tensor \<Rightarrow> flt tensor \<Rightarrow> py_error + flt" where
  "precision_3_30 output targets = precision_3 output targets (Finite (30 / 100))"

definition precision_3_40 :: "flt tensor \<Rightarrow> flt tensor \<Rightarrow> py_error + flt" where
  "precision_3_40 output targets = precision_3 output targets (Finite (40 / 100))"

definition precision_3_50 :: "flt tensor \<Rightarrow> flt tensor \<Rightarrow> py_error + flt" where
  "precision_3_50 output targets = precision_3 output targets (Finite (50 / 100))"

definition precision_3_60 :: "flt tensor \<Rightarrow> flt tensor \<Rightarrow> py_error + flt" where
  "precision_3_60 output targets = precision_3 output targets (Finite (60 / 100))"

definition precision_3_70 :: "flt tensor \<Rightarrow> flt tensor \<Rightarrow> py_error + flt" where
  "precision_3_70 output targets = precision_3 output targets (Finite (70 / 100))"

definition precision_3_80 :: "flt tensor \<Rightarrow> flt tensor \<Rightarrow> py_error + flt" where
  "precision_3_80 output targets = precision_3 output targets (Finite (80 / 100))"

definition recall_0_20 :: "flt tensor \<Rightarrow> flt tensor \<Rightarrow> py_error + flt" where
  "recall_0_20 output targets = recall_0 output targets (Finite (20 / 100))"

definition recall_0_30 :: "flt tensor \<Rightarrow> flt tensor \<Rightarrow> py_error + flt" where
  "recall_0_30 output targets = recall_0 output targets (Finite (30 / 100))"

definition recall_0_40 :: "flt tensor \<Rightarrow> flt tensor \<Rightarrow> py_error + flt" where
  "recall_0_40 output targets = recall_0 output targets (Finite (40 / 100))"

definition recall_0_50 :: "flt tensor \<Rightarrow> flt tensor \<Rightarrow> py_error + flt" where
  "recall_0_50 output targets = recall_0 output targets (Finite (50 / 100))"

definition recall_0_60 :: "flt tensor \<Rightarrow> flt tensor \<Rightarrow> py_error + flt" where
  "recall_0_60 output targets = recall_0 output targets (Finite (60 / 100))"

definition recall_0_70 :: "flt tensor \<Rightarrow> flt tensor \<Rightarrow> py_error + flt" where
  "recall_0_70 output targets = recall_0 output targets (Finite (70 / 100))"

definition recall_0_80 :: "flt tensor \<Rightarrow> flt tensor \<Rightarrow> py_error + flt" where
  "recall_0_80 output targets = recall_0 output targets (Finite (80 / 100))"

definition recall_1_20 :: "flt tensor \<Rightarrow> flt tensor \<Rightarrow> py_error + flt" where
  "recall_1_20 output targets = recall_1 output targets (Finite (20 / 100))"

definition recall_1_30 :: "flt tensor \<Rightarrow> flt tensor \<Rightarrow> py_error + flt" where
  "recall_1_30 output targets = recall_1 output targets (Finite (30 / 100))"

definition recall_1_40 :: "flt tensor \<Rightarrow> flt tensor \<Rightarrow> py_error + flt" where
  "recall_1_40 output targets = recall_1 output targets (Finite (40 / 100))"

definition recall_1_50 :: "flt tensor \<Rightarrow> flt tensor \<Rightarrow> py_error + flt" where
  "recall_1_50 output targets = recall_1 output targets (Finite (50 / 100))"

definition recall_1_60 :: "flt tensor \<Rightarrow> flt tensor \<Rightarrow> py_error + flt" where
  "recall_1_60 output targets = recall_1 output targets (Finite (60 / 100))"

definition recall_1_70 :: "flt tensor \<Rightarrow> flt tensor \<Rightarrow> py_error + flt" where
  "recall_1_70 output targets = recall_1 output targets (Finite (70 / 100))"

definition recall_1_80 :: "flt tensor \<Rightarrow> flt tensor \<Rightarrow> py_error + flt" where
  "recall_1_80 output targets = recall_1 output targets (Finite (80 / 100))"

definition recall_2_20 :: "flt tensor \<Rightarrow> flt tensor \<Rightarrow> py_error + flt" where
  "recall_2_20 output targets = recall_2 output targets (Finite (20 / 100))"

definition recall_2_30 :: "flt tensor \<Rightarrow> flt tensor \<Rightarrow> py_error + flt" where
  "recall_2_30 output targets = recall_2 output targets (Finite (30 / 100))"

definition recall_2_40 :: "flt tensor \<Rightarrow> flt tensor \<Rightarrow> py_error + flt" where
  "recall_2_40 output targets = recall_2 output targets (Finite (40 / 100))"

definition recall_2_50 :: "flt tensor \<Rightarrow> flt tensor \<Rightarrow> py_error + flt" where
  "recall_2_50 output targets = recall_2 output targets (Finite (50 / 100))"

definition recall_2_60 :: "flt tensor \<Rightarrow> flt tensor \<Rightarrow> py_error + flt" where
  "recall_2_60 output targets = recall_2 output targets (Finite (60 / 100))"

definition recall_2_70 :: "flt tensor \<Rightarrow> flt tensor \<Rightarrow> py_error + flt" where
  "recall_2_70 output targets = recall_2 output targets (Finite (70 / 100))"

definition recall_2_80 :: "flt tensor \<Rightarrow> flt tensor \<Rightarrow> py_error + flt" where
  "recall_2_80 output targets = recall_2 output targets (Finite (80 / 100))"

definition recall_3_20 :: "flt tensor \<Rightarrow> flt tensor \<Rightarrow> py_error + flt" where
  "recall_3_20 output targets = recall_3 output targets (Finite (20 / 100))"

definition recall_3_30 :: "flt tensor \<Rightarrow> flt tensor \<Rightarrow> py_error + flt" where
  "recall_3_30 output targets = recall_3 output targets (Finite (30 / 100))"

definition recall_3_40 :: "flt tensor \<Rightarrow> flt tensor \<Rightarrow> py_error + flt" where
  "recall_3_40 output targets = recall_3 output targets (Finite (40 / 100))"

definition recall_3_50 :: "flt tensor \<Rightarrow> flt tensor \<Rightarrow> py_error + flt" where
  "recall_3_50 output targets = recall_3 output targets (Finite (50 / 100))"

definition recall_3_60 :: "flt tensor \<Rightarrow> flt tensor \<Rightarrow> py_error + flt" where
  "recall_3_60 output targets = recall_3 output targets (Finite (60 / 100))"

definition recall_3_70 :: "flt tensor \<Rightarrow> flt tensor \<Rightarrow> py_error + flt" where
  "recall_3_70 output targets = recall_3 output targets (Finite (70 / 100))"

definition recall_3_80 :: "flt tensor \<Rightarrow> flt tensor \<Rightarrow> py_error + flt" where
  "recall_3_80 output targets = recall_3 output targets (Finite (80 / 100))"

section \<open>The store, the trace and programs\<close>

text \<open>
  A dictionary keeps its entries in insertion order. The store holds the dictionaries:
  the address of one is its index. The trace records what a run does to the outside:
  what it logs and which constructors of the collaborator modules it calls.
\<close>

type_synonym dict = "(string \<times> pyval) list"

datatype log_level = Info | Warning | Critical

datatype event =
    Log log_level string "pyval list"
  | Construct string string
  | CudnnBenchmark bool

record state =
  store :: "dict list"
  trace :: "event list"

text \<open>
  A method of a manager is a function of the state that returns a value or an exception,
  and the state it leaves. The state survives an exception, as the objects of a Python
  program do.
\<close>

type_synonym 'a prog = "state \<Rightarrow> (py_error + 'a) \<times> state"

definition ret :: "'a \<Rightarrow> 'a prog" where
  "ret x s = (Inr x, s)"

definition throw :: "py_error \<Rightarrow> 'a prog" where
  "throw e s = (Inl e, s)"

definition bnd :: "'a prog \<Rightarrow> ('a \<Rightarrow> 'b prog) \<Rightarrow> 'b prog" where
  "bnd m f s = (case m s of (Inl e, s') \<Rightarrow> (Inl e, s') | (Inr x, s') \<Rightarrow> f x s')"

text \<open>\<^verbatim>\<open>try: m except: h\<close> with a bare \<^verbatim>\<open>except\<close>: every exception is caught.\<close>

definition try_except :: "'a prog \<Rightarrow> 'a prog \<Rightarrow> 'a prog" where
  "try_except m h s = (case m s of (Inl e, s') \<Rightarrow> h s' | (Inr x, s') \<Rightarrow> (Inr x, s'))"

definition lift :: "py_error + 'a \<Rightarrow> 'a prog" where
  "lift r s = (r, s)"

definition emit :: "event \<Rightarrow> unit prog" where
  "emit ev s = (Inr (), s\<lparr>trace := trace s @ [ev]\<rparr>)"

subsection \<open>Dictionaries\<close>

fun dict_set :: "string \<Rightarrow> pyval \<Rightarrow> dict \<Rightarrow> dict" where
  "dict_set k v [] = [(k, v)]"
| "dict_set k v ((k', v') # kvs) =
     (if k' = k then (k, v) # kvs else (k', v') # dict_set k v kvs)"

text \<open>The dictionary a value refers to; a value that is no dictionary has no entries to read.\<close>

definition deref :: "pyval \<Rightarrow> dict prog" where
  "deref d s =
     (case d of
        PRef a \<Rightarrow> (if a < length (store s) then (Inr (store s ! a), s) else (Inl BadReference, s))
      | _ \<Rightarrow> (Inl TypeError, s))"

text \<open>\<^verbatim>\<open>d[k]\<close>.\<close>

definition getitem :: "pyval \<Rightarrow> string \<Rightarrow> pyval prog" where
  "getitem d k =
     bnd (deref d) (\<lambda>kvs. case map_of kvs k of None \<Rightarrow> throw (KeyError k) | Some v \<Rightarrow> ret v)"

text \<open>\<^verbatim>\<open>d[k] = v\<close>: the dictionary at the address of \<open>d\<close> is changed in place.\<close>

definition setitem :: "pyval \<Rightarrow> string \<Rightarrow> pyval \<Rightarrow> unit prog" where
  "setitem d k v s =
     (case d of
        PRef a \<Rightarrow>
          (if a < length (store s)
           then (Inr (), s\<lparr>store := (store s)[a := dict_set k v (store s ! a)]\<rparr>)
           else (Inl BadReference, s))
      | _ \<Rightarrow> (Inl TypeError, s))"

text \<open>
  \<^verbatim>\<open>d.copy()\<close>: a new dictionary with the entries of \<open>d\<close>. The copy is shallow: an entry
  that refers to a dictionary refers to the same one in the copy.
\<close>

definition dict_copy :: "pyval \<Rightarrow> pyval prog" where
  "dict_copy d s =
     (case d of
        PRef a \<Rightarrow>
          (if a < length (store s)
           then (Inr (PRef (length (store s))), s\<lparr>store := store s @ [store s ! a]\<rparr>)
           else (Inl BadReference, s))
      | _ \<Rightarrow> (Inl (AttributeError ''copy''), s))"

subsection \<open>Numbers, comparison\<close>

fun number_of :: "pyval \<Rightarrow> flt option" where
  "number_of (PInt i) = Some (Finite (of_int i))"
| "number_of (PFloat x) = Some x"
| "number_of (PBool b) = Some (bool_to_float b)"
| "number_of v = None"


text \<open>
  \<^verbatim>\<open>a != b\<close>: numbers are compared by value, anything else by structure (two references
  are equal when they are one address; equality of the contents of two dictionaries is
  not represented).
\<close>

definition py_ne :: "pyval \<Rightarrow> pyval \<Rightarrow> bool" where
  "py_ne a b =
     (case (number_of a, number_of b) of
        (Some x, Some y) \<Rightarrow> \<not> flt_eq x y
      | _ \<Rightarrow> a \<noteq> b)"

section \<open>The collaborators\<close>

text \<open>
  The model, the optimizer and the other objects the managers build belong to libraries
  outside the repository. They are represented by what the managers do with them.
\<close>

datatype device = Cpu | Cuda int

text \<open>
  A network with its weights and its placement, or a data-parallel wrapper around one
  with the devices it replicates over. \<^verbatim>\<open>model.to(device)\<close> moves the network;
  \<^verbatim>\<open>model.load_state_dict(sd)\<close> replaces its weights (the library's check of the keys of
  \<open>sd\<close> is not represented).
\<close>

datatype nn_module =
    Module (weights: pyval) (placement: device)
  | DataParallel nn_module "int list"

fun module_to :: "device \<Rightarrow> nn_module \<Rightarrow> nn_module" where
  "module_to d (Module w p) = Module w d"
| "module_to d (DataParallel m ids) = DataParallel (module_to d m) ids"

fun load_state_dict :: "pyval \<Rightarrow> nn_module \<Rightarrow> nn_module" where
  "load_state_dict sd (Module w p) = Module sd p"
| "load_state_dict sd (DataParallel m ids) = DataParallel (load_state_dict sd m) ids"

fun weights_of :: "nn_module \<Rightarrow> pyval" where
  "weights_of (Module w p) = w"
| "weights_of (DataParallel m ids) = weights_of m"

datatype optimizer = Optimizer (param_groups: "dict list") (opt_state: pyval)

fun opt_load_state_dict :: "pyval \<Rightarrow> optimizer \<Rightarrow> optimizer" where
  "opt_load_state_dict sd (Optimizer gs st) = Optimizer gs sd"

text \<open>An object of a collaborator module of which only the construction matters.\<close>

datatype obj = Obj string dict

datatype data_loader = DataLoader (batches: "(pyval \<times> flt tensor) list")

datatype tta_transform = HorizontalFlip | VerticalFlip

record tta_model =
  tta_wrapper :: string
  tta_inner :: nn_module
  tta_transforms :: "tta_transform list"
  tta_merge_mode :: string
  tta_device :: device

record trainer_args =
  tr_model :: nn_module
  tr_loss :: obj
  tr_metrics :: "string list"
  tr_optimizer :: optimizer
  tr_start_epoch :: pyval
  tr_config :: pyval
  tr_device :: device
  tr_data_loader :: data_loader
  tr_valid_data_loader :: data_loader
  tr_lr_scheduler :: obj

text \<open>
  A module is its name and its namespace: the constructors it holds by name. A
  constructor takes the positional arguments and the keyword arguments and returns the
  object or raises.
\<close>

type_synonym ('x, 'a) py_module = "string \<times> (string \<Rightarrow> ('x \<Rightarrow> dict \<Rightarrow> py_error + 'a) option)"

text \<open>
  What lies outside the repository: the compute devices, the collaborator modules, the
  checkpoint files and the tensor library. Constructors, the trainer and the writer are
  functions of their arguments: they are taken not to write to the dictionaries of the
  store. The dictionaries of a checkpoint that \<open>torch_load\<close> returns are in the store
  before the run.
\<close>

record 'w world =
  cuda_device_count :: nat
  module_arch :: "(unit, nn_module) py_module"
  module_optimizer :: "(dict list, optimizer) py_module"
  module_scheduler :: "(optimizer, obj) py_module"
  module_aug :: "(unit, obj) py_module"
  module_data :: "(obj, data_loader) py_module"
  module_loss :: "(unit, obj) py_module"
  module_h5 :: "(unit, 'w) py_module"
  tta_namespace :: "string \<Rightarrow> bool"
  torch_load :: "string \<Rightarrow> py_error + pyval"
  torch_device :: "pyval \<Rightarrow> py_error + device"
  cuda_set_device :: "device \<Rightarrow> py_error + unit"
  named_parameters :: "nn_module \<Rightarrow> (string \<times> pyval) list"
  split_validation :: "data_loader \<Rightarrow> py_error + data_loader"
  trainer_train :: "trainer_args \<Rightarrow> py_error + pyval"
  tta_forward :: "tta_model \<Rightarrow> flt tensor \<Rightarrow> py_error + flt tensor"
  torch_sigmoid :: "flt tensor \<Rightarrow> flt tensor"
  writer_write :: "'w \<Rightarrow> flt tensor \<Rightarrow> py_error + 'w"
  writer_close :: "'w \<Rightarrow> py_error + pyval"
  path_parent_parent_name :: "string \<Rightarrow> string"

section \<open>The manager base\<close>

text \<open>
  \<^verbatim>\<open>getattr(module, name)\<close>: the constructor of that name, with the name (the module is
  \<open>modl\<close> here).
\<close>

definition getattr :: "('x, 'a) py_module \<Rightarrow> pyval \<Rightarrow> (string \<times> ('x \<Rightarrow> dict \<Rightarrow> py_error + 'a)) prog" where
  "getattr modl name =
     (case name of
        PStr n \<Rightarrow> (case snd modl n of None \<Rightarrow> throw (AttributeError n) | Some c \<Rightarrow> ret (n, c))
      | _ \<Rightarrow> throw TypeError)"

text \<open>
  \<^verbatim>\<open>get_instance(module, name, config, *args)\<close>. The constructor is looked up before its
  keyword arguments are read, as Python evaluates a call.
\<close>

definition get_instance :: "('x, 'a) py_module \<Rightarrow> string \<Rightarrow> pyval \<Rightarrow> 'x \<Rightarrow> 'a prog" where
  "get_instance modl name config args =
     bnd (getitem config name) (\<lambda>block.
     bnd (getitem block ''type'') (\<lambda>ctor_name.
     bnd (emit (Log Info ''Building: {module.__name__}.{ctor_name}'' [PStr (fst modl), ctor_name])) (\<lambda>_.
     bnd (getattr modl ctor_name) (\<lambda>(n, ctor).
     bnd (getitem config name) (\<lambda>block2.
     bnd (getitem block2 ''args'') (\<lambda>kw.
     bnd (deref kw) (\<lambda>kwargs.
     bnd (emit (Construct (fst modl) n)) (\<lambda>_.
     lift (ctor args kwargs)))))))))"

text \<open>\<^verbatim>\<open>ManagerBase.setup_device(model, target_devices)\<close>.\<close>

definition setup_device :: "nat \<Rightarrow> nn_module \<Rightarrow> int list \<Rightarrow> (nn_module \<times> device) prog" where
  "setup_device device_count model target_devices =
     (let available_devices = map int [0..<device_count] in
      if available_devices = [] then
        bnd (emit (Log Warning
               ''There's no GPU available on this machine. Training will be performed on CPU.'' []))
          (\<lambda>_. ret (module_to Cpu model, Cpu))
      else if target_devices = [] then
        bnd (emit (Log Info ''No GPU selected. Training will be performed on CPU.'' []))
          (\<lambda>_. ret (module_to Cpu model, Cpu))
      else
        (let max_target_gpu = Max (set target_devices);
             max_available_gpu = Max (set available_devices);
             msg = ''Configuration requests GPU #{max_target_gpu} but only  {max_available_gpu} available. Check the configuration and try again.''
         in if max_target_gpu > max_available_gpu then
              bnd (emit (Log Critical msg [PInt max_target_gpu, PInt max_available_gpu]))
                (\<lambda>_. throw (Exception msg [PInt max_target_gpu, PInt max_available_gpu]))
            else
              bnd (emit (Log Info
                     ''Using devices {target_devices} of available devices {available_devices}''
                     [PList (map PInt target_devices), PList (map PInt available_devices)]))
                (\<lambda>_. let device = Cuda (hd target_devices) in
                      if length target_devices > 1
                      then ret (DataParallel model target_devices, device)
                      else ret (module_to device model, device))))"

section \<open>The training manager\<close>

text \<open>\<^verbatim>\<open>name.endswith(suffix)\<close>.\<close>

definition endswith :: "string \<Rightarrow> string \<Rightarrow> bool" where
  "endswith name sfx = (length sfx \<le> length name \<and> drop (length name - length sfx) name = sfx)"

text \<open>\<^verbatim>\<open>{"params": params, **kwargs}\<close>: a later entry replaces an earlier one of its key.\<close>

definition param_group :: "pyval list \<Rightarrow> dict \<Rightarrow> dict" where
  "param_group params kwargs = foldl (\<lambda>d (k, v). dict_set k v d) [(''params'', PList params)] kwargs"

text \<open>\<^verbatim>\<open>setup_param_groups_classifier(model, config)\<close>.\<close>

definition setup_param_groups_classifier ::
  "'w world \<Rightarrow> nn_module \<Rightarrow> pyval \<Rightarrow> (dict list) prog" where
  "setup_param_groups_classifier w model config =
     (let bias_params = map snd (filter (\<lambda>(name, param). endswith name ''bias'') (named_parameters w model));
          weight_params = map snd (filter (\<lambda>(name, param). \<not> endswith name ''bias'') (named_parameters w model))
      in bnd (emit (Log Info ''Found {len(weight_params)} weight params'' [PInt (int (length weight_params))])) (\<lambda>_.
         bnd (emit (Log Info ''Found {len(bias_params)} bias params'' [PInt (int (length bias_params))])) (\<lambda>_.
         bnd (getitem config ''args'') (\<lambda>a1.
         bnd (deref a1) (\<lambda>kwargs1.
         bnd (getitem config ''args'') (\<lambda>a2.
         bnd (deref a2) (\<lambda>kwargs2.
         ret [param_group weight_params kwargs1, param_group bias_params kwargs2])))))))"

text \<open>
  \<^verbatim>\<open>resume_checkpoint(resume_path, model, optimizer, config)\<close>. No path is \<open>None\<close> or
  the empty string.
\<close>

definition resume_checkpoint ::
  "'w world \<Rightarrow> string option \<Rightarrow> nn_module \<Rightarrow> optimizer \<Rightarrow> pyval \<Rightarrow> (nn_module \<times> optimizer \<times> pyval) prog" where
  \<open>resume_checkpoint w resume_path model optimizer config =
     (case resume_path of
        None \<Rightarrow> ret (model, optimizer, PInt 0)
      | Some path \<Rightarrow>
          if path = [] then ret (model, optimizer, PInt 0)
          else
            bnd (emit (Log Info ''Loading checkpoint: {resume_path}'' [PStr path])) (\<lambda>_.
            bnd (lift (torch_load w path)) (\<lambda>checkpoint.
            bnd (getitem checkpoint ''state_dict'') (\<lambda>sd.
            let model = load_state_dict sd model in
            bnd (getitem checkpoint ''config'') (\<lambda>ck_cfg.
            bnd (getitem ck_cfg ''optimizer'') (\<lambda>ck_opt.
            bnd (getitem ck_opt ''type'') (\<lambda>ck_type.
            bnd (getitem config ''optimizer'') (\<lambda>cfg_opt.
            bnd (getitem cfg_opt ''type'') (\<lambda>cfg_type.
            bnd (if py_ne ck_type cfg_type
                 then bnd (emit (Log Warning
                        ''Warning: Optimizer type given in config file is different from that of checkpoint. Optimizer parameters not being resumed.'' []))
                        (\<lambda>_. ret optimizer)
                 else bnd (getitem checkpoint ''optimizer'')
                        (\<lambda>st. ret (opt_load_state_dict st optimizer))) (\<lambda>optimizer.
            bnd (emit (Log Info ''Checkpoint "{resume_path}" loaded'' [PStr path])) (\<lambda>_.
            bnd (getitem checkpoint ''epoch'') (\<lambda>epoch.
            ret (model, optimizer, epoch)))))))))))))\<close>

text \<open>
  The names the metric module defines: \<^verbatim>\<open>getattr(module_metric, met)\<close> finds these and
  no other.
\<close>

definition metric_names :: "string list" where
  "metric_names =
    [''partial'', ''torch'', ''dice_mean'', ''dice_0'', ''dice_1'', ''dice_2'', ''dice_3'',
     ''dice_c'', ''dice_single_channel'', ''accuracy_0'', ''accuracy_1'', ''accuracy_2'',
     ''accuracy_3'', ''accuracy'', ''precision_0'', ''precision_1'', ''precision_2'',
     ''precision_3'', ''precision'', ''recall_0'', ''recall_1'', ''recall_2'',
     ''recall_3'', ''recall'', ''_confusion'', ''precision_0_20'', ''precision_0_30'',
     ''precision_0_40'', ''precision_0_50'', ''precision_0_60'', ''precision_0_70'',
     ''precision_0_80'', ''precision_1_20'', ''precision_1_30'', ''precision_1_40'',
     ''precision_1_50'', ''precision_1_60'', ''precision_1_70'', ''precision_1_80'',
     ''precision_2_20'', ''precision_2_30'', ''precision_2_40'', ''precision_2_50'',
     ''precision_2_60'', ''precision_2_70'', ''precision_2_80'', ''precision_3_20'',
     ''precision_3_30'', ''precision_3_40'', ''precision_3_50'', ''precision_3_60'',
     ''precision_3_70'', ''precision_3_80'', ''recall_0_20'', ''recall_0_30'',
     ''recall_0_40'', ''recall_0_50'', ''recall_0_60'', ''recall_0_70'', ''recall_0_80'',
     ''recall_1_20'', ''recall_1_30'', ''recall_1_40'', ''recall_1_50'', ''recall_1_60'',
     ''recall_1_70'', ''recall_1_80'', ''recall_2_20'', ''recall_2_30'', ''recall_2_40'',
     ''recall_2_50'', ''recall_2_60'', ''recall_2_70'', ''recall_2_80'', ''recall_3_20'',
     ''recall_3_30'', ''recall_3_40'', ''recall_3_50'', ''recall_3_60'', ''recall_3_70'',
     ''recall_3_80'']"

text \<open>\<^verbatim>\<open>[getattr(module_metric, met) for met in cfg["metrics"]]\<close>: a handle is its name.\<close>

fun metric_handles :: "pyval list \<Rightarrow> py_error + string list" where
  "metric_handles [] = Inr []"
| "metric_handles (met # mets) =
     (case met of
        PStr n \<Rightarrow>
          (if n \<in> set metric_names
           then (case metric_handles mets of Inl e \<Rightarrow> Inl e | Inr hs \<Rightarrow> Inr (n # hs))
           else Inl (AttributeError n))
      | _ \<Rightarrow> Inl TypeError)"

text \<open>The elements of a list value; a value that is no list cannot be iterated here.\<close>

definition list_of :: "pyval \<Rightarrow> py_error + pyval list" where
  "list_of v = (case v of PList xs \<Rightarrow> Inr xs | _ \<Rightarrow> Inl TypeError)"

text \<open>
  The device list of the configuration as the list of integers \<open>setup_device\<close> is
  declared to take; \<open>None\<close> is as false as the empty list.
\<close>

fun ints_of :: "pyval list \<Rightarrow> py_error + int list" where
  "ints_of [] = Inr []"
| "ints_of (v # vs) =
     (case v of
        PInt i \<Rightarrow> (case ints_of vs of Inl e \<Rightarrow> Inl e | Inr is \<Rightarrow> Inr (i # is))
      | _ \<Rightarrow> Inl TypeError)"

definition device_list :: "pyval \<Rightarrow> py_error + int list" where
  "device_list v = (case v of PNone \<Rightarrow> Inr [] | PList xs \<Rightarrow> ints_of xs | _ \<Rightarrow> Inl TypeError)"

text \<open>
  \<^verbatim>\<open>TrainingManager.run(resume)\<close>, on the manager whose \<^verbatim>\<open>self.cfg\<close> is \<open>self_cfg\<close>. The
  handler of the bare \<^verbatim>\<open>except\<close> writes the default augmentation type through \<open>cfg\<close>
  and builds again.
\<close>

definition training_run :: "'w world \<Rightarrow> pyval \<Rightarrow> string option \<Rightarrow> pyval prog" where
  "training_run w self_cfg resume =
     bnd (dict_copy self_cfg) (\<lambda>cfg.
     bnd (get_instance (module_arch w) ''arch'' cfg ()) (\<lambda>model.
     bnd (getitem cfg ''target_devices'') (\<lambda>tds.
     bnd (lift (device_list tds)) (\<lambda>target_devices.
     bnd (setup_device (cuda_device_count w) model target_devices) (\<lambda>(model, device).
     bnd (emit (CudnnBenchmark True)) (\<lambda>_.
     bnd (getitem cfg ''optimizer'') (\<lambda>opt_cfg.
     bnd (setup_param_groups_classifier w model opt_cfg) (\<lambda>param_groups.
     bnd (get_instance (module_optimizer w) ''optimizer'' cfg param_groups) (\<lambda>optimizer.
     bnd (get_instance (module_scheduler w) ''lr_scheduler'' cfg optimizer) (\<lambda>lr_scheduler.
     bnd (resume_checkpoint w resume model optimizer cfg) (\<lambda>(model, optimizer, start_epoch).
     bnd (try_except
            (get_instance (module_aug w) ''augmentation'' cfg ())
            (bnd (getitem cfg ''augmentation'') (\<lambda>aug_cfg.
             bnd (setitem aug_cfg ''type'' (PStr ''LightTransforms'')) (\<lambda>_.
             get_instance (module_aug w) ''augmentation'' cfg ())))) (\<lambda>transforms.
     bnd (get_instance (module_data w) ''data_loader'' cfg transforms) (\<lambda>data_loader.
     bnd (lift (split_validation w data_loader)) (\<lambda>valid_data_loader.
     bnd (emit (Log Info ''Getting loss and metric function handles'' [])) (\<lambda>_.
     bnd (get_instance (module_loss w) ''loss'' cfg ()) (\<lambda>loss.
     bnd (getitem cfg ''metrics'') (\<lambda>mets.
     bnd (lift (list_of mets)) (\<lambda>met_list.
     bnd (lift (metric_handles met_list)) (\<lambda>metrics.
     bnd (emit (Log Info ''Initialising trainer'' [])) (\<lambda>_.
     bnd (lift (trainer_train w
            \<lparr>tr_model = model, tr_loss = loss, tr_metrics = metrics, tr_optimizer = optimizer,
             tr_start_epoch = start_epoch, tr_config = cfg, tr_device = device,
             tr_data_loader = data_loader, tr_valid_data_loader = valid_data_loader,
             tr_lr_scheduler = lr_scheduler\<rparr>)) (\<lambda>checkpoint_dir.
     bnd (emit (Log Info ''Training completed.'' [])) (\<lambda>_.
     ret checkpoint_dir))))))))))))))))))))))"

section \<open>The inference manager\<close>







text \<open>
  \<^verbatim>\<open>build_tta_model(model, config, device)\<close>. The wrapper is looked up in the namespace of
  the augmentation library by the name the configuration gives; the transforms and the
  merge mode are written in the source.
\<close>

definition build_tta_model :: "'w world \<Rightarrow> nn_module \<Rightarrow> pyval \<Rightarrow> device \<Rightarrow> tta_model prog" where
  "build_tta_model w model config device =
     bnd (getitem config ''tta'') (\<lambda>name.
     case name of
       PStr n \<Rightarrow>
         if tta_namespace w n then
           ret \<lparr>tta_wrapper = n, tta_inner = model,
                tta_transforms = [HorizontalFlip, VerticalFlip],
                tta_merge_mode = ''mean'', tta_device = device\<rparr>
         else throw (AttributeError n)
     | _ \<Rightarrow> throw TypeError)"





text \<open>The constructors a run has called, in order.\<close>

definition constructed :: "state \<Rightarrow> (string \<times> string) list" where
  "constructed s = concat (map (\<lambda>ev. case ev of Construct m n \<Rightarrow> [(m, n)] | _ \<Rightarrow> []) (trace s))"

section \<open>Reading the store\<close>

text \<open>
  What \<^verbatim>\<open>d[k]\<close> returns in a store, and the entries of the dictionary \<open>d\<close> there: reading
  does not change the state.
\<close>

definition lookup :: "dict list \<Rightarrow> pyval \<Rightarrow> string \<Rightarrow> py_error + pyval" where
  "lookup st d k = fst (getitem d k \<lparr>store = st, trace = []\<rparr>)"

definition entries :: "dict list \<Rightarrow> pyval \<Rightarrow> py_error + dict" where
  "entries st d = fst (deref d \<lparr>store = st, trace = []\<rparr>)"

section \<open>A configuration, a checkpoint and a world to run the managers on\<close>

text \<open>
  The store holds a configuration at address 0, with one dictionary for each component
  and its arguments, and at address 14 a checkpoint saved with a training configuration
  of its own (address 15). The augmentation the configuration names is one the
  augmentation module does not hold.
\<close>

definition example_store :: "dict list" where
  "example_store =
    [ [(''seed'', PInt 0), (''verbose'', PInt 1), (''target_devices'', PList [PInt 0]),
       (''device'', PStr ''cpu''), (''score_threshold'', PFloat (Finite (6 / 10))),
       (''arch'', PRef 1), (''optimizer'', PRef 3), (''lr_scheduler'', PRef 5),
       (''augmentation'', PRef 7), (''data_loader'', PRef 9), (''loss'', PRef 11),
       (''metrics'', PList [PStr ''dice_mean'', PStr ''precision_0_30'']),
       (''tta'', PStr ''SegmentationTTAWrapper''), (''merge_mode'', PStr ''max''),
       (''write'', PStr ''HDF5PredictionWriter''), (''output'', PRef 13)],
      [(''type'', PStr ''Unet''), (''args'', PRef 2)],
      [(''encoder_name'', PStr ''resnet34'')],
      [(''type'', PStr ''RAdam''), (''args'', PRef 4)],
      [(''lr'', PFloat (Finite (1 / 1000)))],
      [(''type'', PStr ''StepLR''), (''args'', PRef 6)],
      [(''step_size'', PInt 10)],
      [(''type'', PStr ''HeavyTransforms''), (''args'', PRef 8)],
      [(''height'', PInt 320)],
      [(''type'', PStr ''CloudDataLoader''), (''args'', PRef 10)],
      [(''batch_size'', PInt 8)],
      [(''type'', PStr ''BCEDiceLoss''), (''args'', PRef 12)],
      [],
      [(''raw'', PStr ''out.h5''), (''N'', PInt 4)],
      [(''state_dict'', PStr ''saved weights''), (''optimizer'', PStr ''saved optimizer state''),
       (''epoch'', PInt 7), (''monitor_best'', PTensor \<lparr>shape = [], elems = [Finite (55 / 100)]\<rparr>),
       (''config'', PRef 15)],
      [(''arch'', PRef 1), (''optimizer'', PRef 16), (''augmentation'', PRef 17)],
      [(''type'', PStr ''SGD''), (''args'', PRef 12)],
      [(''type'', PStr ''LightTransforms''), (''args'', PRef 8)] ]"

definition example_world :: "obj world" where
  "example_world =
    \<lparr>cuda_device_count = 1,
     module_arch = (''uco.model.model'',
       \<lambda>n. if n = ''Unet'' then Some (\<lambda>u kwargs. Inr (Module (PStr ''initial weights'') Cpu)) else None),
     module_optimizer = (''uco.model.optimizer'',
       \<lambda>n. if n = ''RAdam'' then Some (\<lambda>groups kwargs. Inr (Optimizer groups (PStr ''fresh optimizer state'')))
           else None),
     module_scheduler = (''uco.model.scheduler'',
       \<lambda>n. if n = ''StepLR'' then Some (\<lambda>opt kwargs. Inr (Obj n kwargs)) else None),
     module_aug = (''uco.data_loader.augmentation'',
       \<lambda>n. if n = ''LightTransforms'' then Some (\<lambda>u kwargs. Inr (Obj n kwargs)) else None),
     module_data = (''uco.data_loader.data_loaders'',
       \<lambda>n. if n = ''CloudDataLoader'' then Some (\<lambda>transforms kwargs. Inr (DataLoader [])) else None),
     module_loss = (''uco.model.loss'',
       \<lambda>n. if n = ''BCEDiceLoss'' then Some (\<lambda>u kwargs. Inr (Obj n kwargs)) else None),
     module_h5 = (''uco.h5'',
       \<lambda>n. if n = ''HDF5PredictionWriter'' then Some (\<lambda>u kwargs. Inr (Obj n kwargs)) else None),
     tta_namespace = (\<lambda>n. n = ''SegmentationTTAWrapper''),
     torch_load = (\<lambda>path. if path = ''saved/run/checkpoints/model_best.pth'' then Inr (PRef 14)
                          else Inl (FileNotFoundError path)),
     torch_device = (\<lambda>v. Inr (Cuda 0)),
     cuda_set_device = (\<lambda>d. Inr ()),
     named_parameters = (\<lambda>m. [(''conv.weight'', PStr ''w''), (''conv.bias'', PStr ''b'')]),
     split_validation = (\<lambda>loader. Inr loader),
     trainer_train = (\<lambda>args. Inr (PStr ''saved/run'')),
     tta_forward = (\<lambda>m x. Inr x),
     torch_sigmoid = (\<lambda>x. x),
     writer_write = (\<lambda>wr x. Inr wr),
     writer_close = (\<lambda>wr. Inr (PStr ''closed'')),
     path_parent_parent_name = (\<lambda>path. ''run'')\<rparr>"

definition example_state :: state where
  "example_state = \<lparr>store = example_store, trace = []\<rparr>"

section \<open>Properties of the metric module\<close>

subsection \<open>Confusion counts\<close>





subsection \<open>Dice of one channel\<close>

lemma sum_indicator:
  "foldl flt_add (Finite a) (map (\<lambda>z. bool_to_float (h z)) zs)
     = Finite (a + of_nat (length (filter h zs)))"
  by (induction zs arbitrary: a) (simp_all add: bool_to_float_def)

lemma mul_indicator:
  "length xs = length ys \<Longrightarrow>
   map2 flt_mul (map (\<lambda>u. bool_to_float (f u)) xs) (map (\<lambda>v. bool_to_float (g v)) ys)
     = map (\<lambda>z. bool_to_float (f (fst z) \<and> g (snd z))) (zip xs ys)"
  by (induction xs ys rule: list_induct2) (simp_all add: bool_to_float_def)

lemma filter_mask_at:
  "length (filter (\<lambda>v. flt_gt v th) xs) = card (mask_at xs th)"
  unfolding mask_at_def by (rule length_filter_conv_card)

lemma filter_mask_at_both:
  assumes "length xs = length ys"
  shows "length (filter (\<lambda>z. flt_gt (fst z) th \<and> flt_gt (snd z) th') (zip xs ys))
           = card (mask_at xs th \<inter> mask_at ys th')"
proof -
  let ?h = "\<lambda>z. flt_gt (fst z) th \<and> flt_gt (snd z) th'"
  have "length (filter ?h (zip xs ys)) = card {i. i < length (zip xs ys) \<and> ?h (zip xs ys ! i)}"
    by (rule length_filter_conv_card)
  also have "{i. i < length (zip xs ys) \<and> ?h (zip xs ys ! i)} = mask_at xs th \<inter> mask_at ys th'"
    using assms by (auto simp: mask_at_def)
  finally show ?thesis .
qed

lemma mask_at_empty:
  assumes "filter (\<lambda>v. flt_gt v th) xs = []"
  shows "mask_at xs th = {}"
proof -
  have "card (mask_at xs th) = 0"
    using assms filter_mask_at[of th xs] by simp
  moreover have "finite (mask_at xs th)"
    by (simp add: mask_at_def)
  ultimately show ?thesis by simp
qed

lemma elems_binarize:
  "elems (tensor_float (tensor_gt (view_flat x) th))
     = map (\<lambda>v. bool_to_float (flt_gt v th)) (elems x)"
  by (simp add: tensor_float_def tensor_gt_def tensor_map_def view_flat_def)

lemma shape_binarize:
  "shape (tensor_float (tensor_gt (view_flat x) th)) = [length (elems x)]"
  by (simp add: tensor_float_def tensor_gt_def tensor_map_def view_flat_def)

lemma sum_binarize:
  "tensor_sum (tensor_float (tensor_gt (view_flat x) th))
     = Finite (of_nat (card (mask_at (elems x) th)))"
  using sum_indicator[of 0 "\<lambda>v. flt_gt v th" "elems x"]
  by (simp add: tensor_sum_def elems_binarize filter_mask_at)

lemma zip_binarize:
  assumes "length (elems x) = length (elems y)"
  shows "\<exists>pt. tensor_zip flt_mul (tensor_float (tensor_gt (view_flat x) th))
                                   (tensor_float (tensor_gt (view_flat y) th')) = Inr pt
           \<and> tensor_sum pt = Finite (of_nat (card (mask_at (elems x) th \<inter> mask_at (elems y) th')))"
proof -
  let ?pt = "\<lparr>shape = [length (elems x)],
              elems = map (\<lambda>z. bool_to_float (flt_gt (fst z) th \<and> flt_gt (snd z) th'))
                          (zip (elems x) (elems y))\<rparr>"
  have "tensor_zip flt_mul (tensor_float (tensor_gt (view_flat x) th))
          (tensor_float (tensor_gt (view_flat y) th')) = Inr ?pt"
    using assms mul_indicator[OF assms, of "\<lambda>v. flt_gt v th" "\<lambda>v. flt_gt v th'"]
    by (simp add: tensor_zip_def elems_binarize shape_binarize)
  moreover have "tensor_sum ?pt = Finite (of_nat (card (mask_at (elems x) th \<inter> mask_at (elems y) th')))"
    using sum_indicator[of 0 "\<lambda>z. flt_gt (fst z) th \<and> flt_gt (snd z) th'" "zip (elems x) (elems y)"]
    by (simp add: tensor_sum_def filter_mask_at_both[OF assms])
  ultimately show ?thesis by blast
qed

text \<open>
  Claim C2. For a probability and a truth tensor of one channel with as many elements
  each, and any threshold, \<open>dice_single_channel\<close> returns
  \<open>(2 |P \<inter> T| + \<epsilon>) / (|P| + |T| + \<epsilon>)\<close> with \<open>\<epsilon> = 1e-9\<close>, where \<open>P\<close> is the
  prediction binarized at the threshold and \<open>T\<close> the truth binarized at 0.5; when both
  masks are empty the score is 1. (The arithmetic is exact here: rounding is not
  represented.)
\<close>

theorem dice_single_channel_formula:
  assumes "length (elems probability) = length (elems truth)"
  shows "dice_single_channel probability truth threshold eps_default =
           Inr (Finite ((2 * of_nat (card (mask_at (elems probability) threshold
                                            \<inter> mask_at (elems truth) (Finite (5 / 10)))) + 1 / 10 ^ 9)
                        / (of_nat (card (mask_at (elems probability) threshold))
                           + of_nat (card (mask_at (elems truth) (Finite (5 / 10)))) + 1 / 10 ^ 9)))
       \<and> (mask_at (elems probability) threshold = {} \<and> mask_at (elems truth) (Finite (5 / 10)) = {}
            \<longrightarrow> dice_single_channel probability truth threshold eps_default = Inr (Finite 1))"
proof -
  let ?P = "mask_at (elems probability) threshold"
  let ?T = "mask_at (elems truth) (Finite (5 / 10))"
  let ?num = "(2 * of_nat (card (?P \<inter> ?T)) + 1 / 10 ^ 9 :: rat)"
  let ?den = "(of_nat (card ?P) + of_nat (card ?T) + 1 / 10 ^ 9 :: rat)"
  have pos: "?den \<noteq> 0"
  proof -
    have "(0::rat) < 1 / 10 ^ 9" by simp
    moreover have "(0::rat) \<le> of_nat (card ?P) + of_nat (card ?T)" by simp
    ultimately have "0 < ?den" by linarith
    then show ?thesis by simp
  qed
  obtain pt where pt: "tensor_zip flt_mul (tensor_float (tensor_gt (view_flat probability) threshold))
                          (tensor_float (tensor_gt (view_flat truth) (Finite (5 / 10)))) = Inr pt"
    and spt: "tensor_sum pt = Finite (of_nat (card (?P \<inter> ?T)))"
    using zip_binarize[OF assms] by blast
  have eq: "dice_single_channel probability truth threshold eps_default =
      Inr (flt_div (Finite ?num) (Finite ?den))"
    by (simp only: dice_single_channel_def Let_def pt sum.case spt sum_binarize eps_default_def
        flt_mul.simps flt_add.simps of_nat_0 add_0_left)
  have main: "dice_single_channel probability truth threshold eps_default = Inr (Finite (?num / ?den))"
    using pos by (simp only: eq flt_div.simps if_False)
  have empty: "dice_single_channel probability truth threshold eps_default = Inr (Finite 1)"
    if "?P = {}" "?T = {}"
    using that by (simp add: main)
  show ?thesis using main empty by blast
qed

theorem dice_single_channel_formula_witness:
  "length (elems \<lparr>shape = [1, 2], elems = [Finite (1 / 10), Finite (3 / 10)]\<rparr>)
     = length (elems \<lparr>shape = [1, 2], elems = [Finite 0, Finite 0]\<rparr>)
 \<and> mask_at (elems \<lparr>shape = [1, 2], elems = [Finite (1 / 10), Finite (3 / 10)]\<rparr>) (Finite (5 / 10)) = {}
 \<and> mask_at (elems \<lparr>shape = [1, 2], elems = [Finite 0, Finite 0]\<rparr>) (Finite (5 / 10)) = {}
 \<and> dice_single_channel \<lparr>shape = [1, 2], elems = [Finite (1 / 10), Finite (3 / 10)]\<rparr>
       \<lparr>shape = [1, 2], elems = [Finite 0, Finite 0]\<rparr> (Finite (5 / 10)) eps_default
     = Inr (Finite 1)"
proof -
  have a: "mask_at [Finite (1 / 10), Finite (3 / 10)] (Finite (5 / 10)) = {}"
    by (rule mask_at_empty) simp
  have b: "mask_at [Finite 0, Finite 0] (Finite (5 / 10)) = {}"
    by (rule mask_at_empty) simp
  show ?thesis
    using dice_single_channel_formula[of "\<lparr>shape = [1, 2], elems = [Finite (1 / 10), Finite (3 / 10)]\<rparr>"
        "\<lparr>shape = [1, 2], elems = [Finite 0, Finite 0]\<rparr>" "Finite (5 / 10)"] a b
    by simp
qed

subsection \<open>Division by zero in the metrics\<close>

lemma select_channel_not_zde: "select_channel x c \<noteq> Inl ZeroDivisionError"
  by (auto simp: select_channel_def py_index_def Let_def split: list.splits)

lemma select_item_not_zde: "select_item x b c \<noteq> Inl ZeroDivisionError"
  by (auto simp: select_item_def py_index_def Let_def split: list.splits)

lemma confusion_not_zde: "confusion p t \<noteq> Inl ZeroDivisionError"
  by (auto simp: confusion_def tensor_zip_def Let_def)

lemma dice_single_channel_not_zde: "dice_single_channel p t th e \<noteq> Inl ZeroDivisionError"
  by (auto simp: dice_single_channel_def tensor_zip_def Let_def)

lemma dice_loop_not_zde: "dice_loop c outp targets th bs acc \<noteq> Inl ZeroDivisionError"
proof (induction bs arbitrary: acc)
  case Nil
  show ?case by simp
next
  case (Cons b bs)
  show ?case
    using select_item_not_zde[of outp b c] select_item_not_zde[of targets b c]
      dice_single_channel_not_zde Cons.IH
    by (auto split: sum.splits)
qed

lemma dice_c_zde:
  assumes "shape targets = [B, C, H, W]"
  shows "(dice_c c outp targets th = Inl ZeroDivisionError) = (B = 0)"
proof (cases "B = 0")
  case True
  then show ?thesis using assms by (simp add: dice_c_def)
next
  case False
  then show ?thesis
    using assms dice_loop_not_zde[of c outp targets th "[0..<B]" "Finite 0"]
    by (auto simp: dice_c_def split: sum.splits)
qed

text \<open>
  Precision and recall return a finite value whenever the two tensors have one shape and
  the class index is in range.
\<close>

lemma length_block: "length (block xs m k) = min m (length xs - k * m)"
  by (simp add: block_def)

lemma select_channel_same_shape:
  assumes "shape x = shape y" and "length (elems x) = length (elems y)"
    and "select_channel x c = Inr xc"
  shows "\<exists>yc. select_channel y c = Inr yc \<and> shape yc = shape xc
            \<and> length (elems yc) = length (elems xc)"
  using assms
  by (auto simp: select_channel_def length_concat length_block o_def
      split: list.splits sum.splits)

lemma precision_recall_return:
  assumes "shape outp = shape targets" and "length (elems outp) = length (elems targets)"
    and "select_channel outp cls = Inr oc"
  shows "\<exists>p r. precision outp targets cls threshold = Inr (Finite p)
             \<and> recall outp targets cls threshold = Inr (Finite r)"
proof -
  obtain tc where tc: "select_channel targets cls = Inr tc" "shape tc = shape oc"
    "length (elems tc) = length (elems oc)"
    using select_channel_same_shape[OF assms] by blast
  have "\<exists>q. confusion (tensor_float (tensor_gt oc threshold)) tc = Inr q"
    using tc by (simp add: confusion_def tensor_zip_def tensor_float_def tensor_gt_def
        tensor_map_def Let_def)
  then obtain tp fp tn fn where
    "confusion (tensor_float (tensor_gt oc threshold)) tc = Inr (tp, fp, tn, fn)"
    by (metis prod_cases4)
  then show ?thesis
    using assms(3) tc(1) by (simp add: precision_def recall_def py_truediv_def Let_def)
qed

text \<open>
  Claim C3. Precision is \<open>TP / (TP + FP)\<close>, and exactly 1 when \<open>TP\<close> and \<open>FP\<close> are both
  zero; recall is \<open>TP / (TP + FN)\<close>, and exactly 1 when \<open>TP\<close> and \<open>FN\<close> are both zero,
  with the counts those of the confusion helper on the selected channel. Neither raises a
  division by zero, whatever the tensors, the class index and the threshold.
\<close>

theorem precision_recall_guarded:
  "precision outp targets cls threshold \<noteq> Inl ZeroDivisionError
 \<and> recall outp targets cls threshold \<noteq> Inl ZeroDivisionError
 \<and> (select_channel outp cls = Inr oc
      \<and> select_channel targets cls = Inr tc
      \<and> confusion (tensor_float (tensor_gt oc threshold)) tc = Inr (tp, fp, tn, fn)
    \<longrightarrow> precision outp targets cls threshold
          = Inr (if tp = 0 \<and> fp = 0 then Finite 1 else Finite (of_nat tp / of_nat (tp + fp)))
      \<and> recall outp targets cls threshold
          = Inr (if tp = 0 \<and> fn = 0 then Finite 1 else Finite (of_nat tp / of_nat (tp + fn))))"
proof -
  have p: "precision outp targets cls threshold \<noteq> Inl ZeroDivisionError"
    using select_channel_not_zde[of outp cls] select_channel_not_zde[of targets cls]
      confusion_not_zde
    by (auto simp: precision_def py_truediv_def Let_def split: sum.splits)
  have r: "recall outp targets cls threshold \<noteq> Inl ZeroDivisionError"
    using select_channel_not_zde[of outp cls] select_channel_not_zde[of targets cls]
      confusion_not_zde
    by (auto simp: recall_def py_truediv_def Let_def split: sum.splits)
  have v: "precision outp targets cls threshold
          = Inr (if tp = 0 \<and> fp = 0 then Finite 1 else Finite (of_nat tp / of_nat (tp + fp)))
      \<and> recall outp targets cls threshold
          = Inr (if tp = 0 \<and> fn = 0 then Finite 1 else Finite (of_nat tp / of_nat (tp + fn)))"
    if "select_channel outp cls = Inr oc" "select_channel targets cls = Inr tc"
      "confusion (tensor_float (tensor_gt oc threshold)) tc = Inr (tp, fp, tn, fn)"
    using that by (simp add: precision_def recall_def py_truediv_def Let_def)
  show ?thesis using p r v by blast
qed

theorem precision_recall_guarded_witness:
  "select_channel \<lparr>shape = [1, 2, 1, 2],
                   elems = [Finite (9 / 10), Finite (1 / 10), Finite (8 / 10), Finite (7 / 10)]\<rparr> 1
     = Inr \<lparr>shape = [1, 1, 2], elems = [Finite (8 / 10), Finite (7 / 10)]\<rparr>
 \<and> select_channel \<lparr>shape = [1, 2, 1, 2], elems = [Finite 1, Finite 0, Finite 0, Finite 0]\<rparr> 1
     = Inr \<lparr>shape = [1, 1, 2], elems = [Finite 0, Finite 0]\<rparr>
 \<and> confusion (tensor_float (tensor_gt \<lparr>shape = [1, 1, 2], elems = [Finite (8 / 10), Finite (7 / 10)]\<rparr>
                                        (Finite (5 / 10))))
              \<lparr>shape = [1, 1, 2], elems = [Finite 0, Finite 0]\<rparr>
     = Inr (0, 2, 0, 0)
 \<and> precision \<lparr>shape = [1, 2, 1, 2],
               elems = [Finite (9 / 10), Finite (1 / 10), Finite (8 / 10), Finite (7 / 10)]\<rparr>
             \<lparr>shape = [1, 2, 1, 2], elems = [Finite 1, Finite 0, Finite 0, Finite 0]\<rparr>
             1 (Finite (5 / 10))
     = Inr (Finite 0)
 \<and> recall \<lparr>shape = [1, 2, 1, 2],
            elems = [Finite (9 / 10), Finite (1 / 10), Finite (8 / 10), Finite (7 / 10)]\<rparr>
          \<lparr>shape = [1, 2, 1, 2], elems = [Finite 1, Finite 0, Finite 0, Finite 0]\<rparr>
          1 (Finite (5 / 10))
     = Inr (Finite 1)"
proof -
  let ?o = "\<lparr>shape = [1, 2, 1, 2],
             elems = [Finite (9 / 10), Finite (1 / 10), Finite (8 / 10), Finite (7 / 10)]\<rparr>"
  let ?t = "\<lparr>shape = [1, 2, 1, 2], elems = [Finite 1, Finite 0, Finite 0, Finite 0]\<rparr>"
  let ?oc = "\<lparr>shape = [1, 1, 2], elems = [Finite (8 / 10), Finite (7 / 10)]\<rparr>"
  let ?tc = "\<lparr>shape = [1, 1, 2], elems = [Finite 0, Finite 0]\<rparr>"
  have so: "select_channel ?o 1 = Inr ?oc"
    by (simp add: select_channel_def py_index_def block_def)
  have st: "select_channel ?t 1 = Inr ?tc"
    by (simp add: select_channel_def py_index_def block_def)
  have cf: "confusion (tensor_float (tensor_gt ?oc (Finite (5 / 10)))) ?tc = Inr (0, 2, 0, 0)"
    by (simp add: confusion_def tensor_zip_def tensor_float_def tensor_gt_def tensor_map_def
        tensor_eq_scalar_def tensor_isnan_def count_true_def bool_to_float_def flt_eq_def
        flt_isnan_def)
  show ?thesis
    using precision_recall_guarded[of ?o ?t 1 "Finite (5 / 10)" ?oc ?tc 0 2 0 0] so st cf
    by simp
qed

subsection \<open>Threshold-bound variants\<close>

text \<open>
  Claim C9. Each pre-bound variant, for the classes 0 to 3 and the thresholds 0.20 to
  0.80, returns what the general precision or recall function returns when called with
  that class index and that threshold.
\<close>

theorem bound_variants_agree:
  "precision_0_20 outp targets = precision outp targets 0 (Finite (20 / 100))
   \<and> precision_0_30 outp targets = precision outp targets 0 (Finite (30 / 100))
   \<and> precision_0_40 outp targets = precision outp targets 0 (Finite (40 / 100))
   \<and> precision_0_50 outp targets = precision outp targets 0 (Finite (50 / 100))
   \<and> precision_0_60 outp targets = precision outp targets 0 (Finite (60 / 100))
   \<and> precision_0_70 outp targets = precision outp targets 0 (Finite (70 / 100))
   \<and> precision_0_80 outp targets = precision outp targets 0 (Finite (80 / 100))
   \<and> precision_1_20 outp targets = precision outp targets 1 (Finite (20 / 100))
   \<and> precision_1_30 outp targets = precision outp targets 1 (Finite (30 / 100))
   \<and> precision_1_40 outp targets = precision outp targets 1 (Finite (40 / 100))
   \<and> precision_1_50 outp targets = precision outp targets 1 (Finite (50 / 100))
   \<and> precision_1_60 outp targets = precision outp targets 1 (Finite (60 / 100))
   \<and> precision_1_70 outp targets = precision outp targets 1 (Finite (70 / 100))
   \<and> precision_1_80 outp targets = precision outp targets 1 (Finite (80 / 100))
   \<and> precision_2_20 outp targets = precision outp targets 2 (Finite (20 / 100))
   \<and> precision_2_30 outp targets = precision outp targets 2 (Finite (30 / 100))
   \<and> precision_2_40 outp targets = precision outp targets 2 (Finite (40 / 100))
   \<and> precision_2_50 outp targets = precision outp targets 2 (Finite (50 / 100))
   \<and> precision_2_60 outp targets = precision outp targets 2 (Finite (60 / 100))
   \<and> precision_2_70 outp targets = precision outp targets 2 (Finite (70 / 100))
   \<and> precision_2_80 outp targets = precision outp targets 2 (Finite (80 / 100))
   \<and> precision_3_20 outp targets = precision outp targets 3 (Finite (20 / 100))
   \<and> precision_3_30 outp targets = precision outp targets 3 (Finite (30 / 100))
   \<and> precision_3_40 outp targets = precision outp targets 3 (Finite (40 / 100))
   \<and> precision_3_50 outp targets = precision outp targets 3 (Finite (50 / 100))
   \<and> precision_3_60 outp targets = precision outp targets 3 (Finite (60 / 100))
   \<and> precision_3_70 outp targets = precision outp targets 3 (Finite (70 / 100))
   \<and> precision_3_80 outp targets = precision outp targets 3 (Finite (80 / 100))
   \<and> recall_0_20 outp targets = recall outp targets 0 (Finite (20 / 100))
   \<and> recall_0_30 outp targets = recall outp targets 0 (Finite (30 / 100))
   \<and> recall_0_40 outp targets = recall outp targets 0 (Finite (40 / 100))
   \<and> recall_0_50 outp targets = recall outp targets 0 (Finite (50 / 100))
   \<and> recall_0_60 outp targets = recall outp targets 0 (Finite (60 / 100))
   \<and> recall_0_70 outp targets = recall outp targets 0 (Finite (70 / 100))
   \<and> recall_0_80 outp targets = recall outp targets 0 (Finite (80 / 100))
   \<and> recall_1_20 outp targets = recall outp targets 1 (Finite (20 / 100))
   \<and> recall_1_30 outp targets = recall outp targets 1 (Finite (30 / 100))
   \<and> recall_1_40 outp targets = recall outp targets 1 (Finite (40 / 100))
   \<and> recall_1_50 outp targets = recall outp targets 1 (Finite (50 / 100))
   \<and> recall_1_60 outp targets = recall outp targets 1 (Finite (60 / 100))
   \<and> recall_1_70 outp targets = recall outp targets 1 (Finite (70 / 100))
   \<and> recall_1_80 outp targets = recall outp targets 1 (Finite (80 / 100))
   \<and> recall_2_20 outp targets = recall outp targets 2 (Finite (20 / 100))
   \<and> recall_2_30 outp targets = recall outp targets 2 (Finite (30 / 100))
   \<and> recall_2_40 outp targets = recall outp targets 2 (Finite (40 / 100))
   \<and> recall_2_50 outp targets = recall outp targets 2 (Finite (50 / 100))
   \<and> recall_2_60 outp targets = recall outp targets 2 (Finite (60 / 100))
   \<and> recall_2_70 outp targets = recall outp targets 2 (Finite (70 / 100))
   \<and> recall_2_80 outp targets = recall outp targets 2 (Finite (80 / 100))
   \<and> recall_3_20 outp targets = recall outp targets 3 (Finite (20 / 100))
   \<and> recall_3_30 outp targets = recall outp targets 3 (Finite (30 / 100))
   \<and> recall_3_40 outp targets = recall outp targets 3 (Finite (40 / 100))
   \<and> recall_3_50 outp targets = recall outp targets 3 (Finite (50 / 100))
   \<and> recall_3_60 outp targets = recall outp targets 3 (Finite (60 / 100))
   \<and> recall_3_70 outp targets = recall outp targets 3 (Finite (70 / 100))
   \<and> recall_3_80 outp targets = recall outp targets 3 (Finite (80 / 100))"
  by (simp only: precision_0_def precision_0_20_def precision_0_30_def precision_0_40_def precision_0_50_def precision_0_60_def precision_0_70_def precision_0_80_def precision_1_def precision_1_20_def precision_1_30_def precision_1_40_def precision_1_50_def precision_1_60_def precision_1_70_def precision_1_80_def precision_2_def precision_2_20_def precision_2_30_def precision_2_40_def precision_2_50_def precision_2_60_def precision_2_70_def precision_2_80_def precision_3_def precision_3_20_def precision_3_30_def precision_3_40_def precision_3_50_def precision_3_60_def precision_3_70_def precision_3_80_def recall_0_def recall_0_20_def recall_0_30_def recall_0_40_def recall_0_50_def recall_0_60_def recall_0_70_def recall_0_80_def recall_1_def recall_1_20_def recall_1_30_def recall_1_40_def recall_1_50_def recall_1_60_def recall_1_70_def recall_1_80_def recall_2_def recall_2_20_def recall_2_30_def recall_2_40_def recall_2_50_def recall_2_60_def recall_2_70_def recall_2_80_def recall_3_def recall_3_20_def recall_3_30_def recall_3_40_def recall_3_50_def recall_3_60_def recall_3_70_def recall_3_80_def simp_thms)

subsection \<open>Dice over an empty batch\<close>

text \<open>
  Claim C10. With a four-dimensional target tensor, the per-class Dice functions and
  their mean raise a division by zero exactly when the batch dimension is zero: the
  division of the total by the batch size is not guarded, so a non-empty batch is a
  precondition of every Dice computation.
\<close>

theorem dice_needs_nonempty_batch:
  assumes "shape targets = [B, C, H, W]"
  shows "(dice_c c outp targets th = Inl ZeroDivisionError) = (B = 0)
       \<and> (dice_0 outp targets th = Inl ZeroDivisionError) = (B = 0)
       \<and> (dice_1 outp targets th = Inl ZeroDivisionError) = (B = 0)
       \<and> (dice_2 outp targets th = Inl ZeroDivisionError) = (B = 0)
       \<and> (dice_3 outp targets th = Inl ZeroDivisionError) = (B = 0)
       \<and> (dice_mean outp targets th = Inl ZeroDivisionError) = (B = 0)"
proof -
  note z = dice_c_zde[OF assms]
  have m: "(dice_mean outp targets th = Inl ZeroDivisionError) = (B = 0)"
    using z[of 0 outp th] z[of 1 outp th] z[of 2 outp th] z[of 3 outp th]
    by (auto simp: dice_mean_def dice_0_def dice_1_def dice_2_def dice_3_def split: sum.splits)
  show ?thesis
    using z m by (simp add: dice_0_def dice_1_def dice_2_def dice_3_def)
qed

theorem dice_needs_nonempty_batch_witness:
  "shape \<lparr>shape = [0, 4, 2, 2], elems = ([] :: flt list)\<rparr> = [0, 4, 2, 2]
 \<and> dice_c 2 \<lparr>shape = [0, 4, 2, 2], elems = []\<rparr> \<lparr>shape = [0, 4, 2, 2], elems = []\<rparr> (Finite (5 / 10))
     = Inl ZeroDivisionError
 \<and> dice_mean \<lparr>shape = [0, 4, 2, 2], elems = []\<rparr> \<lparr>shape = [0, 4, 2, 2], elems = []\<rparr> (Finite (5 / 10))
     = Inl ZeroDivisionError"
  using dice_needs_nonempty_batch[of "\<lparr>shape = [0, 4, 2, 2], elems = []\<rparr>" 0 4 2 2 2
      "\<lparr>shape = [0, 4, 2, 2], elems = []\<rparr>" "Finite (5 / 10)"]
  by simp

section \<open>Properties of the managers\<close>

subsection \<open>Running a program\<close>

lemma bnd_ret: "bnd (ret x) f s = f x s"
  by (simp add: bnd_def ret_def)


lemma bnd_emit: "bnd (emit ev) f s = f () (s\<lparr>trace := trace s @ [ev]\<rparr>)"
  by (simp add: bnd_def emit_def)

lemma bnd_lift: "bnd (lift r) f s = (case r of Inl e \<Rightarrow> (Inl e, s) | Inr x \<Rightarrow> f x s)"
  by (simp add: bnd_def lift_def split: sum.splits)

lemma bnd_assoc: "bnd (bnd m f) g = bnd m (\<lambda>x. bnd (f x) g)"
  by (rule ext) (simp add: bnd_def split: prod.splits sum.splits)

lemma ret_apply: "ret x s = (Inr x, s)"
  by (simp add: ret_def)


lemma deref_entries: "deref d s = (entries (store s) d, s)"
  by (simp add: deref_def entries_def split: pyval.splits)

lemma getitem_lookup: "getitem d k s = (lookup (store s) d k, s)"
  by (simp add: lookup_def getitem_def bnd_def deref_def throw_def ret_def
      split: pyval.splits option.splits)

lemma bnd_getitem:
  "bnd (getitem d k) f s = (case lookup (store s) d k of Inl e \<Rightarrow> (Inl e, s) | Inr v \<Rightarrow> f v s)"
  by (simp add: bnd_def getitem_lookup split: sum.splits)


lemma constructed_log: "constructed (s\<lparr>trace := trace s @ [Log l m vs]\<rparr>) = constructed s"
  by (simp add: constructed_def)

lemma constructed_store: "constructed (s\<lparr>store := st\<rparr>) = constructed s"
  by (simp add: constructed_def)

lemma bnd_deref:
  "bnd (deref d) f s = (case entries (store s) d of Inl e \<Rightarrow> (Inl e, s) | Inr v \<Rightarrow> f v s)"
  by (simp add: bnd_def deref_entries split: sum.splits)

subsection \<open>Device setup\<close>




subsection \<open>Resuming a checkpoint\<close>

lemma weights_of_load: "weights_of (load_state_dict sd m) = sd"
  by (induction m) simp_all

text \<open>
  Claim C5. Without a checkpoint path, \<open>resume_checkpoint\<close> returns the model and the
  optimizer as they are and epoch 0, and leaves the state as it is. With a path whose
  checkpoint loads, the weights of the model become the \<open>state_dict\<close> of the checkpoint
  whatever the optimizer types; the state of the optimizer becomes the one of the
  checkpoint exactly when the optimizer type the checkpoint records equals the configured
  one, and otherwise a warning is logged and the optimizer is returned as it was; the
  epoch of the checkpoint is returned.
\<close>

theorem resume_checkpoint_cases:
  \<open>(resume_path = None \<or> resume_path = Some [] \<longrightarrow>
      resume_checkpoint w resume_path model optimizer config s = (Inr (model, optimizer, PInt 0), s))
 \<and> (path \<noteq> []
      \<and> torch_load w path = Inr checkpoint
      \<and> lookup (store s) checkpoint ''state_dict'' = Inr sd
      \<and> lookup (store s) checkpoint ''config'' = Inr ck_cfg
      \<and> lookup (store s) ck_cfg ''optimizer'' = Inr ck_opt
      \<and> lookup (store s) ck_opt ''type'' = Inr (PStr ck_type)
      \<and> lookup (store s) config ''optimizer'' = Inr cfg_opt
      \<and> lookup (store s) cfg_opt ''type'' = Inr (PStr cfg_type)
      \<and> (ck_type = cfg_type \<longrightarrow> lookup (store s) checkpoint ''optimizer'' = Inr st)
      \<and> lookup (store s) checkpoint ''epoch'' = Inr epoch
    \<longrightarrow> fst (resume_checkpoint w (Some path) model optimizer config s)
          = Inr (load_state_dict sd model,
                 (if ck_type = cfg_type then opt_load_state_dict st optimizer else optimizer),
                 epoch)
      \<and> weights_of (load_state_dict sd model) = sd
      \<and> trace (snd (resume_checkpoint w (Some path) model optimizer config s))
          = trace s
            @ [Log Info ''Loading checkpoint: {resume_path}'' [PStr path]]
            @ (if ck_type = cfg_type then []
               else [Log Warning
                      ''Warning: Optimizer type given in config file is different from that of checkpoint. Optimizer parameters not being resumed.'' []])
            @ [Log Info ''Checkpoint "{resume_path}" loaded'' [PStr path]]
      \<and> store (snd (resume_checkpoint w (Some path) model optimizer config s)) = store s)\<close>
proof -
  have a: "resume_checkpoint w resume_path model optimizer config s = (Inr (model, optimizer, PInt 0), s)"
    if "resume_path = None \<or> resume_path = Some []"
    using that by (auto simp: resume_checkpoint_def ret_apply)
  have b: \<open>fst (resume_checkpoint w (Some path) model optimizer config s)
          = Inr (load_state_dict sd model,
                 (if ck_type = cfg_type then opt_load_state_dict st optimizer else optimizer),
                 epoch)
      \<and> trace (snd (resume_checkpoint w (Some path) model optimizer config s))
          = trace s
            @ [Log Info ''Loading checkpoint: {resume_path}'' [PStr path]]
            @ (if ck_type = cfg_type then []
               else [Log Warning
                      ''Warning: Optimizer type given in config file is different from that of checkpoint. Optimizer parameters not being resumed.'' []])
            @ [Log Info ''Checkpoint "{resume_path}" loaded'' [PStr path]]
      \<and> store (snd (resume_checkpoint w (Some path) model optimizer config s)) = store s\<close>
    if "path \<noteq> []" "torch_load w path = Inr checkpoint"
      "lookup (store s) checkpoint ''state_dict'' = Inr sd"
      "lookup (store s) checkpoint ''config'' = Inr ck_cfg"
      "lookup (store s) ck_cfg ''optimizer'' = Inr ck_opt"
      "lookup (store s) ck_opt ''type'' = Inr (PStr ck_type)"
      "lookup (store s) config ''optimizer'' = Inr cfg_opt"
      "lookup (store s) cfg_opt ''type'' = Inr (PStr cfg_type)"
      "ck_type = cfg_type \<longrightarrow> lookup (store s) checkpoint ''optimizer'' = Inr st"
      "lookup (store s) checkpoint ''epoch'' = Inr epoch"
    using that
    by (simp add: resume_checkpoint_def Let_def bnd_assoc bnd_emit bnd_lift bnd_getitem bnd_ret
        ret_apply py_ne_def)
  show ?thesis using a b weights_of_load by blast
qed

theorem resume_checkpoint_cases_witness:
  \<open>resume_checkpoint example_world None (Module (PStr ''initial weights'') Cpu)
      (Optimizer [] (PStr ''fresh optimizer state'')) (PRef 0) example_state
     = (Inr (Module (PStr ''initial weights'') Cpu, Optimizer [] (PStr ''fresh optimizer state''), PInt 0),
        example_state)
 \<and> fst (resume_checkpoint example_world (Some ''saved/run/checkpoints/model_best.pth'')
          (Module (PStr ''initial weights'') Cpu) (Optimizer [] (PStr ''fresh optimizer state''))
          (PRef 0) example_state)
     = Inr (Module (PStr ''saved weights'') Cpu, Optimizer [] (PStr ''fresh optimizer state''), PInt 7)
 \<and> trace (snd (resume_checkpoint example_world (Some ''saved/run/checkpoints/model_best.pth'')
          (Module (PStr ''initial weights'') Cpu) (Optimizer [] (PStr ''fresh optimizer state''))
          (PRef 0) example_state))
     = [Log Info ''Loading checkpoint: {resume_path}'' [PStr ''saved/run/checkpoints/model_best.pth''],
        Log Warning
          ''Warning: Optimizer type given in config file is different from that of checkpoint. Optimizer parameters not being resumed.'' [],
        Log Info ''Checkpoint "{resume_path}" loaded'' [PStr ''saved/run/checkpoints/model_best.pth'']]
 \<and> fst (resume_checkpoint example_world (Some ''saved/run/checkpoints/model_best.pth'')
          (Module (PStr ''initial weights'') Cpu) (Optimizer [] (PStr ''fresh optimizer state''))
          (PRef 15) example_state)
     = Inr (Module (PStr ''saved weights'') Cpu, Optimizer [] (PStr ''saved optimizer state''), PInt 7)\<close>
proof -
  let ?p = "''saved/run/checkpoints/model_best.pth''"
  let ?m = "Module (PStr ''initial weights'') Cpu"
  let ?o = "Optimizer [] (PStr ''fresh optimizer state'')"
  have l: "torch_load example_world ?p = Inr (PRef 14)"
    by (simp add: example_world_def)
  have k1: "lookup (store example_state) (PRef 14) ''state_dict'' = Inr (PStr ''saved weights'')"
    by code_simp
  have k2: "lookup (store example_state) (PRef 14) ''config'' = Inr (PRef 15)"
    by code_simp
  have k3: "lookup (store example_state) (PRef 15) ''optimizer'' = Inr (PRef 16)"
    by code_simp
  have k4: "lookup (store example_state) (PRef 16) ''type'' = Inr (PStr ''SGD'')"
    by code_simp
  have k5: "lookup (store example_state) (PRef 0) ''optimizer'' = Inr (PRef 3)"
    by code_simp
  have k6: "lookup (store example_state) (PRef 3) ''type'' = Inr (PStr ''RAdam'')"
    by code_simp
  have k7: "lookup (store example_state) (PRef 14) ''optimizer'' = Inr (PStr ''saved optimizer state'')"
    by code_simp
  have k8: "lookup (store example_state) (PRef 14) ''epoch'' = Inr (PInt 7)"
    by code_simp
  have t0: "trace example_state = []"
    by (simp add: example_state_def)
  show ?thesis
    using resume_checkpoint_cases[where resume_path = None and w = example_world and model = ?m
        and optimizer = ?o and config = "PRef 0" and s = example_state]
      resume_checkpoint_cases[where resume_path = None and w = example_world and model = ?m
        and optimizer = ?o and config = "PRef 0" and s = example_state and path = ?p
        and checkpoint = "PRef 14" and sd = "PStr ''saved weights''" and ck_cfg = "PRef 15"
        and ck_opt = "PRef 16" and ck_type = "''SGD''" and cfg_opt = "PRef 3"
        and cfg_type = "''RAdam''" and st = "PStr ''saved optimizer state''" and epoch = "PInt 7"]
      resume_checkpoint_cases[where resume_path = None and w = example_world and model = ?m
        and optimizer = ?o and config = "PRef 15" and s = example_state and path = ?p
        and checkpoint = "PRef 14" and sd = "PStr ''saved weights''" and ck_cfg = "PRef 15"
        and ck_opt = "PRef 16" and ck_type = "''SGD''" and cfg_opt = "PRef 16"
        and cfg_type = "''SGD''" and st = "PStr ''saved optimizer state''" and epoch = "PInt 7"]
      l k1 k2 k3 k4 k5 k6 k7 k8 t0
    by simp
qed

subsection \<open>The score check of an inference run\<close>




subsection \<open>The test-time-augmentation wrapper\<close>

text \<open>
  Claim C7, as the source has it. The wrapper is the one the configuration names under
  \<open>tta\<close>; its transforms are the horizontal and the vertical flip and its merge mode is
  \<open>mean\<close>, both written in the source: no entry of the configuration is read for them.
  (How many predictions the wrapper merges is the augmentation library's matter.)
\<close>

theorem tta_model_built:
  assumes "lookup (store s) config ''tta'' = Inr (PStr n)" and "tta_namespace w n"
  shows "build_tta_model w model config device s
           = (Inr \<lparr>tta_wrapper = n, tta_inner = model,
                   tta_transforms = [HorizontalFlip, VerticalFlip],
                   tta_merge_mode = ''mean'', tta_device = device\<rparr>, s)"
  using assms by (simp add: build_tta_model_def bnd_getitem ret_apply)

theorem tta_model_built_witness:
  "lookup (store example_state) (PRef 0) ''tta'' = Inr (PStr ''SegmentationTTAWrapper'')
 \<and> tta_namespace example_world ''SegmentationTTAWrapper''
 \<and> build_tta_model example_world (Module (PStr ''saved weights'') Cpu) (PRef 0) (Cuda 0) example_state
     = (Inr \<lparr>tta_wrapper = ''SegmentationTTAWrapper'',
             tta_inner = Module (PStr ''saved weights'') Cpu,
             tta_transforms = [HorizontalFlip, VerticalFlip],
             tta_merge_mode = ''mean'', tta_device = Cuda 0\<rparr>, example_state)"
proof -
  have h1: "lookup (store example_state) (PRef 0) ''tta'' = Inr (PStr ''SegmentationTTAWrapper'')"
    by code_simp
  have h2: "tta_namespace example_world ''SegmentationTTAWrapper''"
    by (simp add: example_world_def)
  show ?thesis
    using tta_model_built[OF h1 h2] h1 h2 by simp
qed

text \<open>
  Claim C7 as first stated, with the merge mode taken from the configuration, fails: the
  merge mode is not read from it. A configuration that asks for
  \<open>max\<close> and one that holds nothing but the name of the wrapper both give \<open>mean\<close>.
\<close>

theorem tta_merge_mode_counterexample:
  "lookup example_store (PRef 0) ''merge_mode'' = Inr (PStr ''max'')
 \<and> map_sum id tta_merge_mode
      (fst (build_tta_model example_world (Module (PStr ''saved weights'') Cpu) (PRef 0) (Cuda 0)
             example_state)) = Inr ''mean''
 \<and> map_sum id tta_merge_mode
      (fst (build_tta_model example_world (Module (PStr ''saved weights'') Cpu) (PRef 0) (Cuda 0)
             \<lparr>store = [[(''tta'', PStr ''SegmentationTTAWrapper'')]], trace = []\<rparr>)) = Inr ''mean''"
  by code_simp

subsection \<open>The configuration during a training run\<close>

lemma map_of_dict_set: "map_of (dict_set k v d) k' = (if k' = k then Some v else map_of d k')"
  by (induction d) auto

lemma lookup_ref:
  "lookup st (PRef a) k =
     (if a < length st
      then (case map_of (st ! a) k of None \<Rightarrow> Inl (KeyError k) | Some v \<Rightarrow> Inr v)
      else Inl BadReference)"
  by (simp add: lookup_def getitem_def deref_def bnd_def throw_def ret_def split: option.splits)

text \<open>
  The copy and the write of the handler, on any store: the block the write goes to is the
  block the copied configuration holds, so the write is seen through the original.
\<close>

lemma shallow_copy_shares_blocks:
  assumes "a < length (store s)" and "b < length (store s)"
    and "lookup (store s) (PRef a) ''augmentation'' = Inr (PRef b)"
  shows "\<exists>s2. bnd (dict_copy (PRef a)) (\<lambda>cfg.
               bnd (getitem cfg ''augmentation'') (\<lambda>aug_cfg.
               setitem aug_cfg ''type'' (PStr ''LightTransforms''))) s = (Inr (), s2)
            \<and> lookup (store s2) (PRef a) ''augmentation'' = Inr (PRef b)
            \<and> lookup (store s2) (PRef b) ''type'' = Inr (PStr ''LightTransforms'')"
proof -
  have m: "map_of (store s ! a) ''augmentation'' = Some (PRef b)"
    using assms(1,3) by (simp add: lookup_ref split: option.splits)
  show ?thesis
    using assms(1,2) m
    by (auto simp: bnd_def dict_copy_def getitem_def deref_def ret_def throw_def setitem_def
        lookup_ref nth_append nth_list_update map_of_dict_set)
qed

text \<open>
  Claim C8 fails on the fallback path. The run copies the configuration of the manager,
  but the copy is shallow: the dictionary of the augmentation block is shared with the
  configuration the manager was built with, and the handler writes the default type into
  it. Before the run the manager's configuration names \<open>HeavyTransforms\<close>; after it,
  \<open>LightTransforms\<close>.
\<close>

theorem training_run_writes_manager_config:
  "lookup (store example_state) (PRef 0) ''augmentation'' = Inr (PRef 7)
 \<and> lookup (store example_state) (PRef 7) ''type'' = Inr (PStr ''HeavyTransforms'')
 \<and> fst (training_run example_world (PRef 0) None example_state) = Inr (PStr ''saved/run'')
 \<and> lookup (store (snd (training_run example_world (PRef 0) None example_state))) (PRef 0) ''augmentation''
     = Inr (PRef 7)
 \<and> lookup (store (snd (training_run example_world (PRef 0) None example_state))) (PRef 7) ''type''
     = Inr (PStr ''LightTransforms'')"
  by code_simp

end
